theory Spec2Isabelle
  imports Complex_Main "HOL-Library.Word" "HOL-Library.Log_Nat"
begin

section \<open>Python values, errors and string primitives\<close>

text \<open>
  The exceptions the modelled code can raise. Every \<open>raise\<close> of the source and every
  failure of a built-in the source calls is a branch of the model returning \<open>Inl\<close>.
\<close>

datatype py_error =
    ImpdarError string
  | AttributeError string
  | TypeError string
  | ValueError string
  | IndexError
  | ZeroDivisionError
  | OverflowError
  | UnboundLocalError string

text \<open>The attribute values that \<open>check_attrs\<close> distinguishes: \<open>None\<close>, numpy arrays
  (which carry a \<open>dtype\<close> and a shape) and plain Python scalars (which have no \<open>dtype\<close>).\<close>

datatype pyval =
    PyNone
  | PyInt int
  | PyStr string
  | PyDtype string
  | NdArray string "nat list"

text \<open>An object is its attribute dictionary: an attribute that was never assigned is
  absent (\<open>hasattr\<close> is false), one assigned \<open>None\<close> maps to \<open>PyNone\<close>.\<close>

type_synonym pyobj = "string \<rightharpoonup> pyval"

subsection \<open>\<open>str\<close> operations\<close>

fun startswith :: "string \<Rightarrow> string \<Rightarrow> bool" where
  "startswith s [] = True"
| "startswith [] (p # ps) = False"
| "startswith (c # cs) (p # ps) = (c = p \<and> startswith cs ps)"

text \<open>\<open>s.find(sub)\<close>: the lowest index where \<open>sub\<close> starts, or \<open>-1\<close>.\<close>

fun find_from :: "string \<Rightarrow> string \<Rightarrow> nat \<Rightarrow> int" where
  "find_from [] sub i = (if sub = [] then int i else - 1)"
| "find_from (c # cs) sub i =
     (if startswith (c # cs) sub then int i else find_from cs sub (Suc i))"

definition py_find :: "string \<Rightarrow> string \<Rightarrow> int" where
  "py_find s sub = find_from s sub 0"

text \<open>\<open>sub in s\<close>.\<close>

definition py_in :: "string \<Rightarrow> string \<Rightarrow> bool" where
  "py_in sub s = (py_find s sub \<noteq> - 1)"

text \<open>\<open>[m.start() for m in re.finditer(pat, s)]\<close> for a literal, non-empty pattern:
  the matches are found left to right and do not overlap (\<open>skip\<close> counts the characters
  of the last match still to be passed).\<close>

fun finditer_from :: "string \<Rightarrow> string \<Rightarrow> nat \<Rightarrow> nat \<Rightarrow> nat list" where
  "finditer_from [] pat i skip = []"
| "finditer_from (c # cs) pat i skip =
     (if 0 < skip then finditer_from cs pat (Suc i) (skip - 1)
      else if startswith (c # cs) pat then i # finditer_from cs pat (Suc i) (length pat - 1)
      else finditer_from cs pat (Suc i) 0)"

definition finditer_starts :: "string \<Rightarrow> string \<Rightarrow> nat list" where
  "finditer_starts pat s = finditer_from s pat 0 0"

text \<open>\<open>s[a:b]\<close> with Python's rules: a negative index counts from the end, and both
  ends are clamped to the string.\<close>

definition slice_index :: "nat \<Rightarrow> int \<Rightarrow> nat" where
  "slice_index n i = (if i < 0 then nat (max 0 (int n + i)) else min n (nat i))"

definition py_slice :: "'a list \<Rightarrow> int \<Rightarrow> int \<Rightarrow> 'a list" where
  "py_slice s a b =
     (let lo = slice_index (length s) a; hi = slice_index (length s) b
      in take (hi - lo) (drop lo s))"

text \<open>\<open>s[a:]\<close> for \<open>a \<ge> 0\<close>.\<close>

definition py_slice_from :: "'a list \<Rightarrow> int \<Rightarrow> 'a list" where
  "py_slice_from s a = drop (slice_index (length s) a) s"

text \<open>\<open>s[i]\<close> for \<open>i \<ge> 0\<close>: IndexError out of range.\<close>

definition py_index :: "'a list \<Rightarrow> nat \<Rightarrow> py_error + 'a" where
  "py_index s i = (if i < length s then Inr (s ! i) else Inl IndexError)"

subsection \<open>\<open>int(s, base)\<close>\<close>

definition digit_val :: "char \<Rightarrow> int option" where
  "digit_val c =
     (let n = of_char c :: int in
      if 48 \<le> n \<and> n \<le> 57 then Some (n - 48)
      else if 97 \<le> n \<and> n \<le> 122 then Some (n - 87)
      else if 65 \<le> n \<and> n \<le> 90 then Some (n - 55)
      else None)"

text \<open>Digits with single underscores between them; \<open>prev\<close> says that the last
  character was a digit, so the text can neither start nor end with an underscore, nor
  hold two in a row, and cannot be empty.\<close>

fun parse_digits :: "int \<Rightarrow> string \<Rightarrow> bool \<Rightarrow> int \<Rightarrow> int option" where
  "parse_digits b [] prev acc = (if prev then Some acc else None)"
| "parse_digits b (c # cs) prev acc =
     (if c = CHR ''_'' then (if prev then parse_digits b cs False acc else None)
      else case digit_val c of
        None \<Rightarrow> None
      | Some d \<Rightarrow> if d < b then parse_digits b cs True (acc * b + d) else None)"

text \<open>The blanks that \<open>int\<close> skips around the literal: the C blanks (tab to carriage
  return, and the space) and, of the characters above 127, the Unicode white space (next
  line and no-break space, of those a \<open>char\<close> can hold). The separators 28 to 31 are
  white space for \<open>str.isspace\<close> but are not skipped by \<open>int\<close>.\<close>

definition is_space :: "char \<Rightarrow> bool" where
  "is_space c = (let n = of_char c :: int in (9 \<le> n \<and> n \<le> 13) \<or> n = 32 \<or> n = 133 \<or> n = 160)"

definition strip :: "string \<Rightarrow> string" where
  "strip s = rev (dropWhile is_space (rev (dropWhile is_space s)))"

text \<open>After the sign, base 16 accepts an optional \<open>0x\<close> or \<open>0X\<close> prefix, which one
  underscore may follow.\<close>

definition strip_base_prefix :: "int \<Rightarrow> string \<Rightarrow> string" where
  "strip_base_prefix b s =
     (if b = 16 \<and> (startswith s ''0x'' \<or> startswith s ''0X'')
      then (if startswith (drop 2 s) ''_'' then drop 3 s else drop 2 s)
      else s)"

definition parse_unsigned :: "int \<Rightarrow> string \<Rightarrow> int option" where
  "parse_unsigned b s = parse_digits b (strip_base_prefix b s) False 0"

definition py_int_of_str :: "int \<Rightarrow> string \<Rightarrow> py_error + int" where
  "py_int_of_str b s0 =
     (let s = strip s0;
          neg = startswith s ''-'' \<and> s \<noteq> [];
          body = (if s \<noteq> [] \<and> (hd s = CHR ''-'' \<or> hd s = CHR ''+'') then tl s else s)
      in case parse_unsigned b body of
           None \<Rightarrow> Inl (ValueError ''invalid literal for int()'')
         | Some n \<Rightarrow> Inr (if neg then - n else n))"

text \<open>\<open>bin(n)\<close>: the binary digits, most significant first, after \<open>0b\<close> (and a
  minus sign for a negative number).\<close>

function bin_digits :: "int \<Rightarrow> string" where
  "bin_digits n =
     (if n < 2 then [if n = 1 then CHR ''1'' else CHR ''0'']
      else bin_digits (n div 2) @ [if odd n then CHR ''1'' else CHR ''0''])"
  by pat_completeness auto
termination
  by (relation "measure nat") auto

declare bin_digits.simps [simp del]

definition py_bin :: "int \<Rightarrow> string" where
  "py_bin n = (if n < 0 then ''-'' else []) @ ''0b'' @ bin_digits \<bar>n\<bar>"

section \<open>The record model and its attribute check (ApresData)\<close>

definition attrs_guaranteed :: "string list" where
  "attrs_guaranteed = [''data'', ''decday'', ''dt'', ''lat'', ''long'', ''snum'', ''tnum'',
                       ''trace_num'', ''travel_time'']"

definition attrs_optional :: "string list" where
  "attrs_optional = [''x_coord'', ''y_coord'', ''elev'', ''fn'', ''file_read_code'']"

text \<open>The first loop of \<open>check_attrs\<close>: a guaranteed attribute must exist and must
  not be \<open>None\<close>; the first one that fails raises.\<close>

fun check_guaranteed :: "pyobj \<Rightarrow> string list \<Rightarrow> py_error option" where
  "check_guaranteed obj [] = None"
| "check_guaranteed obj (a # as) =
     (case obj a of
        None \<Rightarrow> Some (ImpdarError (a @ '' is missing.''))
      | Some v \<Rightarrow> if v = PyNone then Some (ImpdarError (a @ '' is None.''))
                  else check_guaranteed obj as)"

text \<open>The second loop: an optional attribute must exist, and may be \<open>None\<close>.\<close>

fun check_optional :: "pyobj \<Rightarrow> string list \<Rightarrow> py_error option" where
  "check_optional obj [] = None"
| "check_optional obj (a # as) =
     (case obj a of
        None \<Rightarrow> Some (ImpdarError (a @ '' is missing.''))
      | Some v \<Rightarrow> check_optional obj as)"

text \<open>\<open>self.data.dtype\<close>: an array has a \<open>dtype\<close>, \<open>None\<close> and the plain Python
  scalars have not.\<close>

fun get_dtype :: "pyval \<Rightarrow> py_error + pyval" where
  "get_dtype (NdArray d shp) = Inr (PyDtype d)"
| "get_dtype v = Inl (AttributeError ''dtype'')"

definition check_attrs :: "pyobj \<Rightarrow> py_error + pyobj" where
  "check_attrs obj =
     (case check_guaranteed obj attrs_guaranteed of
        Some e \<Rightarrow> Inl e
      | None \<Rightarrow>
         (case check_optional obj attrs_optional of
            Some e \<Rightarrow> Inl e
          | None \<Rightarrow>
             if obj ''data_dtype'' = None \<or> obj ''data_dtype'' = Some PyNone
             then (case obj ''data'' of
                     None \<Rightarrow> Inl (AttributeError ''data'')
                   | Some d \<Rightarrow>
                      (case get_dtype d of
                         Inl e \<Rightarrow> Inl e
                       | Inr t \<Rightarrow> Inr (obj(''data_dtype'' \<mapsto> t))))
             else Inr obj))"

section \<open>Python floats (IEEE 754 binary64)\<close>

text \<open>
  A float is a rational, an infinity or not-a-number. Every arithmetic result is
  rounded to the nearest binary64 value, ties to even (\<open>fl64\<close>): 53 significant bits,
  the subnormal grid \<open>2^-1074\<close> below \<open>2^-1022\<close>, an infinity once the rounded value
  reaches \<open>2^1024\<close> (the exponent is 1024 or more, or it is 1023 and the significand
  rounds up to \<open>2^53\<close>).
  The sign of zero is not kept; none of the modelled operations depends on it
  (Python's float division raises on both zeros).
\<close>

datatype pyfloat = Fin rat | PInf | NInf | NaN

definition pow2 :: "int \<Rightarrow> rat" where
  "pow2 e = (if 0 \<le> e then 2 ^ nat e else 1 / 2 ^ nat (- e))"

text \<open>For \<open>x > 0\<close>: the \<open>e\<close> with \<open>2^e \<le> x < 2^(e+1)\<close>.\<close>

definition flog2 :: "rat \<Rightarrow> int" where
  "flog2 x = (let e0 = bitlen (fst (quotient_of x)) - bitlen (snd (quotient_of x))
              in if pow2 e0 \<le> x then e0 else e0 - 1)"

definition round_half_even :: "rat \<Rightarrow> int" where
  "round_half_even y =
     (let f = \<lfloor>y\<rfloor>; d = y - of_int f
      in if d < 1 / 2 then f else if 1 / 2 < d then f + 1
         else if even f then f else f + 1)"

definition fl64 :: "rat \<Rightarrow> pyfloat" where
  "fl64 x =
     (if x = 0 then Fin 0
      else let e = flog2 \<bar>x\<bar> in
        if 1024 \<le> e then (if 0 < x then PInf else NInf)
        else let q = pow2 (max e (- 1022) - 52);
                 m = round_half_even (x / q)
             in if e = 1023 \<and> \<bar>m\<bar> = 9007199254740992
                then (if 0 < x then PInf else NInf)
                else Fin (of_int m * q))"

fun fneg :: "pyfloat \<Rightarrow> pyfloat" where
  "fneg (Fin a) = Fin (- a)"
| "fneg PInf = NInf"
| "fneg NInf = PInf"
| "fneg NaN = NaN"

fun fabs :: "pyfloat \<Rightarrow> pyfloat" where
  "fabs (Fin a) = Fin \<bar>a\<bar>"
| "fabs PInf = PInf"
| "fabs NInf = PInf"
| "fabs NaN = NaN"

fun fadd :: "pyfloat \<Rightarrow> pyfloat \<Rightarrow> pyfloat" where
  "fadd (Fin a) (Fin b) = fl64 (a + b)"
| "fadd NaN y = NaN"
| "fadd x NaN = NaN"
| "fadd PInf NInf = NaN"
| "fadd NInf PInf = NaN"
| "fadd PInf y = PInf"
| "fadd NInf y = NInf"
| "fadd x PInf = PInf"
| "fadd x NInf = NInf"

definition fsub :: "pyfloat \<Rightarrow> pyfloat \<Rightarrow> pyfloat" where
  "fsub x y = fadd x (fneg y)"

text \<open>The sign of a float that is not NaN: \<open>-1\<close>, \<open>0\<close> or \<open>1\<close>.\<close>

fun fsgn :: "pyfloat \<Rightarrow> int" where
  "fsgn (Fin a) = (if a < 0 then - 1 else if a = 0 then 0 else 1)"
| "fsgn PInf = 1"
| "fsgn NInf = - 1"
| "fsgn NaN = 0"

definition inf_of_sign :: "int \<Rightarrow> pyfloat" where
  "inf_of_sign s = (if s = 0 then NaN else if 0 < s then PInf else NInf)"

fun fmul :: "pyfloat \<Rightarrow> pyfloat \<Rightarrow> pyfloat" where
  "fmul (Fin a) (Fin b) = fl64 (a * b)"
| "fmul NaN y = NaN"
| "fmul x NaN = NaN"
| "fmul x y = inf_of_sign (fsgn x * fsgn y)"

text \<open>Python's \<open>/\<close> on floats raises on a zero divisor, whatever the dividend.\<close>

fun fdiv :: "pyfloat \<Rightarrow> pyfloat \<Rightarrow> py_error + pyfloat" where
  "fdiv x (Fin b) =
     (if b = 0 then Inl ZeroDivisionError
      else case x of Fin a \<Rightarrow> Inr (fl64 (a / b))
                   | NaN \<Rightarrow> Inr NaN
                   | other \<Rightarrow> Inr (inf_of_sign (fsgn x * fsgn (Fin b))))"
| "fdiv x NaN = Inr NaN"
| "fdiv (Fin a) y = Inr (Fin 0)"
| "fdiv x y = Inr NaN"

text \<open>\<open>x > y\<close> on floats: false as soon as one side is NaN.\<close>

fun fgt :: "pyfloat \<Rightarrow> pyfloat \<Rightarrow> bool" where
  "fgt (Fin a) (Fin b) = (b < a)"
| "fgt NaN y = False"
| "fgt x NaN = False"
| "fgt PInf y = (y \<noteq> PInf)"
| "fgt x NInf = (x \<noteq> NInf)"
| "fgt x y = False"

text \<open>\<open>float(n)\<close> for a Python int, as the mixed operations \<open>int * float\<close> and
  \<open>int / float\<close> apply it: correctly rounded, OverflowError beyond the range.\<close>

definition float_of_int :: "int \<Rightarrow> py_error + pyfloat" where
  "float_of_int n = (case fl64 (of_int n) of Fin r \<Rightarrow> Inr (Fin r) | other \<Rightarrow> Inl OverflowError)"

text \<open>\<open>round(x)\<close> (ties to even) and \<open>int(x)\<close> (towards zero) on a float.\<close>

fun py_round :: "pyfloat \<Rightarrow> py_error + int" where
  "py_round (Fin a) = Inr (round_half_even a)"
| "py_round NaN = Inl (ValueError ''cannot convert float NaN to integer'')"
| "py_round x = Inl OverflowError"

fun py_trunc :: "pyfloat \<Rightarrow> py_error + int" where
  "py_trunc (Fin a) = Inr (if 0 \<le> a then \<lfloor>a\<rfloor> else \<lceil>a\<rceil>)"
| "py_trunc NaN = Inl (ValueError ''cannot convert float NaN to integer'')"
| "py_trunc x = Inl OverflowError"

section \<open>The ApRES header (ApresHeader)\<close>

text \<open>
  The header object. \<open>__init__\<close> assigns \<open>fsysclk\<close> and \<open>fs\<close> only; every other attribute
  exists from its first assignment on, so it is an \<open>option\<close> here and reading it
  while unset raises AttributeError. \<open>file_format_attr\<close> is the instance attribute
  \<open>file_format\<close> that three branches of the method \<open>file_format\<close> assign (the first
  branch assigns \<open>fileformat\<close>).
\<close>

datatype pynum = NInt int | NFloat pyfloat

record ApresHeader =
  fsysclk :: pyfloat
  fs :: pyfloat
  header :: "string option"
  fileformat :: "int option"
  file_format_attr :: "int option"
  noDwellHigh :: "int option"
  noDwellLow :: "int option"
  startFreq :: "pyfloat option"
  stopFreq :: "pyfloat option"
  rampUpStep :: "pyfloat option"
  rampDownStep :: "pyfloat option"
  tstepUp :: "pyfloat option"
  tstepDown :: "pyfloat option"
  snum :: "int option"
  nstepsDDS :: "int option"
  chirpLength :: "pynum option"
  nchirpSamples :: "int option"
  K :: "pyfloat option"
  rampDir :: "string option"
  nchirpsPerPeriod :: "pyfloat option"

text \<open>\<open>ApresHeader()\<close> followed by \<open>read_header\<close>, which stores the header text.\<close>

definition init_header :: "string \<Rightarrow> ApresHeader" where
  "init_header hdr =
     \<lparr> fsysclk = Fin 1000000000, fs = Fin 40000, header = Some hdr,
       fileformat = None, file_format_attr = None,
       noDwellHigh = None, noDwellLow = None,
       startFreq = None, stopFreq = None, rampUpStep = None, rampDownStep = None,
       tstepUp = None, tstepDown = None, snum = None, nstepsDDS = None,
       chirpLength = None, nchirpSamples = None, K = None, rampDir = None,
       nchirpsPerPeriod = None \<rparr>"

text \<open>An exception leaves the object as it was when it was raised: a failing run
  returns the error together with that state.\<close>

type_synonym 's outcome = "(py_error \<times> 's) + 's"

definition bindE :: "py_error + 'a \<Rightarrow> ('a \<Rightarrow> py_error + 'b) \<Rightarrow> py_error + 'b" where
  "bindE m f = (case m of Inl e \<Rightarrow> Inl e | Inr x \<Rightarrow> f x)"

definition on_ok :: "py_error + 'a \<Rightarrow> 's \<Rightarrow> ('a \<Rightarrow> (py_error \<times> 's) + 'b) \<Rightarrow> (py_error \<times> 's) + 'b" where
  "on_ok m s f = (case m of Inl e \<Rightarrow> Inl (e, s) | Inr x \<Rightarrow> f x)"

definition and_then :: "('e + 's) \<Rightarrow> ('s \<Rightarrow> 'e + 's) \<Rightarrow> 'e + 's" where
  "and_then m f = (case m of Inl e \<Rightarrow> Inl e | Inr s \<Rightarrow> f s)"

definition get_attr :: "string \<Rightarrow> 'a option \<Rightarrow> py_error + 'a" where
  "get_attr name v = (case v of None \<Rightarrow> Inl (AttributeError name) | Some x \<Rightarrow> Inr x)"

subsection \<open>\<open>file_format\<close>\<close>

text \<open>The last branch builds a \<open>TypeError\<close> and drops it: there is no \<open>raise\<close>, so
  the method returns with nothing assigned.\<close>

definition file_format :: "ApresHeader \<Rightarrow> ApresHeader outcome" where
  "file_format h =
     on_ok (get_attr ''header'' (header h)) h (\<lambda>hdr.
       if py_in ''SW_Issue='' hdr then Inr (h\<lparr>fileformat := Some 5\<rparr>)
       else if py_in ''SubBursts in burst:'' hdr then Inr (h\<lparr>file_format_attr := Some 4\<rparr>)
       else if py_in ''*** Burst Header ***'' hdr then Inr (h\<lparr>file_format_attr := Some 3\<rparr>)
       else if py_in ''RADAR TIME'' hdr then Inr (h\<lparr>file_format_attr := Some 2\<rparr>)
       else Inr h)"

subsection \<open>\<open>update_parameters\<close>: the registers\<close>

definition dquote :: string where
  "dquote = [CHR 0x22]"

definition backslash :: string where
  "backslash = [CHR 0x5C]"

text \<open>\<open>loc3 = header[loc2+2:].find('"')\<close> and \<open>val = header[loc2+2 : loc2+loc3+2]\<close>.\<close>

definition reg_val :: "string \<Rightarrow> nat \<Rightarrow> string" where
  "reg_val hdr l2 =
     (let loc3 = py_find (py_slice_from hdr (int l2 + 2)) dquote
      in py_slice hdr (int l2 + 2) (int l2 + loc3 + 2))"

text \<open>\<open>int(s, 16) * fsysclk / (2**32)\<close>.\<close>

definition hex_freq :: "string \<Rightarrow> pyfloat \<Rightarrow> py_error + pyfloat" where
  "hex_freq s clk =
     bindE (py_int_of_str 16 s) (\<lambda>n.
     bindE (float_of_int n) (\<lambda>x.
     fdiv (fmul x clk) (Fin 4294967296)))"

text \<open>\<open>int(s, 16) * 4 / fsysclk\<close>.\<close>

definition hex_tstep :: "string \<Rightarrow> pyfloat \<Rightarrow> py_error + pyfloat" where
  "hex_tstep s clk =
     bindE (py_int_of_str 16 s) (\<lambda>n.
     bindE (float_of_int (n * 4)) (\<lambda>x.
     fdiv x clk))"

text \<open>\<open>int(val[i])\<close> on the reversed \<open>bin\<close> text.\<close>

definition bit_char :: "string \<Rightarrow> nat \<Rightarrow> py_error + int" where
  "bit_char b i = bindE (py_index b i) (\<lambda>c. py_int_of_str 10 [c])"

definition reg01 :: "string \<Rightarrow> ApresHeader \<Rightarrow> ApresHeader outcome" where
  "reg01 val h =
     on_ok (py_int_of_str 16 val) h (\<lambda>n.
       let b = rev (py_bin n) in
       on_ok (bit_char b 18) h (\<lambda>hi.
         let h1 = h\<lparr>noDwellHigh := Some hi\<rparr> in
         on_ok (bit_char b 17) h1 (\<lambda>lo.
           Inr (h1\<lparr>noDwellLow := Some lo\<rparr>))))"

definition reg0B :: "string \<Rightarrow> ApresHeader \<Rightarrow> ApresHeader outcome" where
  "reg0B val h =
     on_ok (hex_freq (py_slice_from val 8) (fsysclk h)) h (\<lambda>f.
       let h1 = h\<lparr>startFreq := Some f\<rparr> in
       on_ok (hex_freq (py_slice val 0 8) (fsysclk h1)) h1 (\<lambda>g.
         Inr (h1\<lparr>stopFreq := Some g\<rparr>)))"

definition reg0C :: "string \<Rightarrow> ApresHeader \<Rightarrow> ApresHeader outcome" where
  "reg0C val h =
     on_ok (hex_freq (py_slice_from val 8) (fsysclk h)) h (\<lambda>f.
       let h1 = h\<lparr>rampUpStep := Some f\<rparr> in
       on_ok (hex_freq (py_slice val 0 8) (fsysclk h1)) h1 (\<lambda>g.
         Inr (h1\<lparr>rampDownStep := Some g\<rparr>)))"

definition reg0D :: "string \<Rightarrow> ApresHeader \<Rightarrow> ApresHeader outcome" where
  "reg0D val h =
     on_ok (hex_tstep (py_slice_from val 4) (fsysclk h)) h (\<lambda>f.
       let h1 = h\<lparr>tstepUp := Some f\<rparr> in
       on_ok (hex_tstep (py_slice val 0 4) (fsysclk h1)) h1 (\<lambda>g.
         Inr (h1\<lparr>tstepDown := Some g\<rparr>)))"

text \<open>One pass of the loop over \<open>loc1\<close>: \<open>case = header[loc1[k]:loc2[k]]\<close>; a register
  name other than the four is passed over.\<close>

definition reg_case :: "string \<Rightarrow> nat \<Rightarrow> nat \<Rightarrow> ApresHeader \<Rightarrow> ApresHeader outcome" where
  "reg_case hdr l1 l2 h =
     (let name = py_slice hdr (int l1) (int l2) in
      if name = ''Reg01'' then reg01 (reg_val hdr l2) h
      else if name = ''Reg0B'' then reg0B (reg_val hdr l2) h
      else if name = ''Reg0C'' then reg0C (reg_val hdr l2) h
      else if name = ''Reg0D'' then reg0D (reg_val hdr l2) h
      else Inr h)"

text \<open>\<open>for k in range(len(loc1))\<close>: the k-th \<open>Reg0\<close> is paired with the k-th \<open>="\<close>;
  \<open>loc2[k]\<close> raises IndexError when there are fewer of them.\<close>

fun reg_loop :: "string \<Rightarrow> nat list \<Rightarrow> nat list \<Rightarrow> ApresHeader \<Rightarrow> ApresHeader outcome" where
  "reg_loop hdr [] loc2 h = Inr h"
| "reg_loop hdr (l1 # loc1) [] h = Inl (IndexError, h)"
| "reg_loop hdr (l1 # loc1) (l2 # loc2) h =
     and_then (reg_case hdr l1 l2 h) (reg_loop hdr loc1 loc2)"

subsection \<open>\<open>update_parameters\<close>: the scalar tokens and the derived parameters\<close>

text \<open>
  \<open>output = np.empty(2).astype(str)\<close> is an array of 32-character strings holding the
  text of two uninitialised floats. An entry that is never assigned is \<open>None\<close> here:
  whatever float it came from, its text is no integer literal. An assignment keeps the
  first 32 characters, and an entry is read back without its trailing NUL characters
  (the array pads with them).
\<close>

definition u32_item :: "string \<Rightarrow> string" where
  "u32_item s = rev (dropWhile (\<lambda>c. of_char c = (0 :: int)) (rev (take 32 s)))"

definition scalar_token :: "string \<Rightarrow> string \<Rightarrow> string option" where
  "scalar_token hdr name =
     (if py_in name hdr then
        (let search_start = py_find hdr name;
             search_end = py_find (py_slice_from hdr search_start) backslash
         in Some (u32_item (py_slice hdr (search_start + int (length name))
                                         (search_end + search_start))))
      else None)"

text \<open>\<open>self.fs == 1\<close> with \<open>self.fs = output[0]\<close>, a numpy string: a string never
  equals an integer, whatever its text.\<close>

definition str_eq_int :: "string option \<Rightarrow> int \<Rightarrow> bool" where
  "str_eq_int s n = False"

definition int_of_output :: "string option \<Rightarrow> py_error + int" where
  "int_of_output s =
     (case s of None \<Rightarrow> Inl (ValueError ''invalid literal for int()'')
              | Some t \<Rightarrow> py_int_of_str 10 t)"

definition set_fs_snum :: "string \<Rightarrow> ApresHeader \<Rightarrow> ApresHeader outcome" where
  "set_fs_snum hdr h =
     (let output0 = scalar_token hdr ''SamplingFreqMode='';
          output1 = scalar_token hdr ''N_ADC_SAMPLES='';
          h1 = h\<lparr>fs := (if str_eq_int output0 1 then Fin 80000 else Fin 40000)\<rparr>
      in on_ok (int_of_output output1) h1 (\<lambda>n. Inr (h1\<lparr>snum := Some n\<rparr>)))"

text \<open>\<open>round(abs((self.stopFreq - self.startFreq)/self.rampUpStep))\<close>.\<close>

definition set_nstepsDDS :: "ApresHeader \<Rightarrow> ApresHeader outcome" where
  "set_nstepsDDS h =
     on_ok (bindE (get_attr ''stopFreq'' (stopFreq h)) (\<lambda>sp.
            bindE (get_attr ''startFreq'' (startFreq h)) (\<lambda>st.
            bindE (get_attr ''rampUpStep'' (rampUpStep h)) (\<lambda>up.
            bindE (fdiv (fsub sp st) up) (\<lambda>q. py_round (fabs q)))))) h
       (\<lambda>n. Inr (h\<lparr>nstepsDDS := Some n\<rparr>))"

text \<open>\<open>int(self.nstepsDDS * self.tstepUp)\<close>.\<close>

definition set_chirpLength :: "ApresHeader \<Rightarrow> ApresHeader outcome" where
  "set_chirpLength h =
     on_ok (bindE (get_attr ''nstepsDDS'' (nstepsDDS h)) (\<lambda>n.
            bindE (get_attr ''tstepUp'' (tstepUp h)) (\<lambda>t.
            bindE (float_of_int n) (\<lambda>x. py_trunc (fmul x t))))) h
       (\<lambda>c. Inr (h\<lparr>chirpLength := Some (NInt c)\<rparr>))"

text \<open>\<open>chirpLength * fs\<close>, for either kind of number that \<open>chirpLength\<close> can hold.\<close>

definition num_times_float :: "pynum \<Rightarrow> pyfloat \<Rightarrow> py_error + pyfloat" where
  "num_times_float c f =
     (case c of NInt n \<Rightarrow> bindE (float_of_int n) (\<lambda>x. Inr (fmul x f))
              | NFloat x \<Rightarrow> Inr (fmul x f))"

text \<open>\<open>round(self.chirpLength * self.fs)\<close>.\<close>

definition set_nchirpSamples :: "ApresHeader \<Rightarrow> ApresHeader outcome" where
  "set_nchirpSamples h =
     on_ok (bindE (get_attr ''chirpLength'' (chirpLength h)) (\<lambda>c.
            bindE (num_times_float c (fs h)) py_round)) h
       (\<lambda>n. Inr (h\<lparr>nchirpSamples := Some n\<rparr>))"

text \<open>\<open>if self.nchirpSamples > self.snum: self.chirpLength = self.snum / self.fs\<close>.\<close>

definition clamp_chirpLength :: "ApresHeader \<Rightarrow> ApresHeader outcome" where
  "clamp_chirpLength h =
     on_ok (bindE (get_attr ''nchirpSamples'' (nchirpSamples h)) (\<lambda>n.
            bindE (get_attr ''snum'' (snum h)) (\<lambda>s. Inr (n, s)))) h
       (\<lambda>(n, s).
          if s < n
          then on_ok (bindE (float_of_int s) (\<lambda>x. fdiv x (fs h))) h
                 (\<lambda>c. Inr (h\<lparr>chirpLength := Some (NFloat c)\<rparr>))
          else Inr h)"

text \<open>\<open>np.pi\<close> is the binary64 value nearest to \<open>\<pi>\<close>.\<close>

definition np_pi :: pyfloat where
  "np_pi = Fin (884279719003555 / 2 ^ 48)"

text \<open>\<open>2.*np.pi*(self.rampUpStep/self.tstepUp)\<close>.\<close>

definition set_K :: "ApresHeader \<Rightarrow> ApresHeader outcome" where
  "set_K h =
     on_ok (bindE (get_attr ''rampUpStep'' (rampUpStep h)) (\<lambda>up.
            bindE (get_attr ''tstepUp'' (tstepUp h)) (\<lambda>t.
            bindE (fdiv up t) (\<lambda>q. Inr (fmul (fmul (Fin 2) np_pi) q))))) h
       (\<lambda>k. Inr (h\<lparr>K := Some k\<rparr>))"

text \<open>\<open>if self.stopFreq > 400e6: 'down' else: 'up'\<close>.\<close>

definition set_rampDir :: "ApresHeader \<Rightarrow> ApresHeader outcome" where
  "set_rampDir h =
     on_ok (get_attr ''stopFreq'' (stopFreq h)) h (\<lambda>sp.
       Inr (h\<lparr>rampDir := Some (if fgt sp (Fin 400000000) then ''down'' else ''up'')\<rparr>))"

text \<open>\<open>if self.noDwellHigh and self.noDwellLow\<close>: \<open>and\<close> reads its second operand
  only when the first is true (non-zero).\<close>

definition set_upDown :: "ApresHeader \<Rightarrow> ApresHeader outcome" where
  "set_upDown h =
     on_ok (get_attr ''noDwellHigh'' (noDwellHigh h)) h (\<lambda>hi.
       if hi \<noteq> 0
       then on_ok (get_attr ''noDwellLow'' (noDwellLow h)) h (\<lambda>lo.
              if lo \<noteq> 0
              then Inr (h\<lparr>rampDir := Some ''upDown'', nchirpsPerPeriod := Some NaN\<rparr>)
              else Inr h)
       else Inr h)"

definition derive_parameters :: "string \<Rightarrow> ApresHeader \<Rightarrow> ApresHeader outcome" where
  "derive_parameters hdr h =
     and_then (and_then (and_then (and_then (and_then (and_then (and_then
       (set_fs_snum hdr h) set_nstepsDDS) set_chirpLength) set_nchirpSamples)
       clamp_chirpLength) set_K) set_rampDir) set_upDown"

definition update_parameters :: "ApresHeader \<Rightarrow> ApresHeader outcome" where
  "update_parameters h =
     on_ok (get_attr ''header'' (header h)) h (\<lambda>hdr.
       and_then (reg_loop hdr (finditer_starts ''Reg0'' hdr)
                              (finditer_starts (''='' @ dquote) hdr) h)
                (derive_parameters hdr))"

section \<open>Example inputs\<close>

text \<open>A record as a loader leaves it: the nine guaranteed attributes set, the five
  optional ones declared and empty.\<close>

definition complete_record :: pyobj where
  "complete_record =
     [''data'' \<mapsto> NdArray ''float64'' [20, 40], ''decday'' \<mapsto> NdArray ''float64'' [40],
      ''dt'' \<mapsto> PyInt 1, ''lat'' \<mapsto> NdArray ''float64'' [40],
      ''long'' \<mapsto> NdArray ''float64'' [40], ''snum'' \<mapsto> PyInt 20, ''tnum'' \<mapsto> PyInt 40,
      ''trace_num'' \<mapsto> NdArray ''float64'' [40], ''travel_time'' \<mapsto> NdArray ''float64'' [20],
      ''x_coord'' \<mapsto> PyNone, ''y_coord'' \<mapsto> PyNone, ''elev'' \<mapsto> PyNone,
      ''fn'' \<mapsto> PyNone, ''file_read_code'' \<mapsto> PyNone]"

text \<open>Header texts as \<open>str(bytes)\<close> gives them: a line ends with the four characters
  backslash, r, backslash, n. \<open>burst_header\<close> builds the text of a header with the two
  scalar tokens and the given register lines.\<close>

definition crlf :: string where
  "crlf = backslash @ ''r'' @ backslash @ ''n''"

definition reg_line :: "string \<Rightarrow> string \<Rightarrow> string" where
  "reg_line name val = name @ ''='' @ dquote @ val @ dquote @ crlf"

definition burst_header :: "string \<Rightarrow> string \<Rightarrow> string \<Rightarrow> string" where
  "burst_header mode nadc regs =
     ''SamplingFreqMode='' @ mode @ crlf @ ''N_ADC_SAMPLES='' @ nadc @ crlf @ regs"

text \<open>Sampling mode 1, 40000 samples, no-dwell high only, a ramp from 200 MHz to just
  under 400 MHz.\<close>

definition hdr_up :: string where
  "hdr_up = burst_header ''1'' ''40000''
     (reg_line ''Reg01'' ''000C0820'' @ reg_line ''Reg0B'' ''6666666633333333''
      @ reg_line ''Reg0C'' ''000053E3000053E3'' @ reg_line ''Reg0D'' ''186A186A'')"


text \<open>The same without the \<open>Reg01\<close> line.\<close>

definition hdr_no_reg01 :: string where
  "hdr_no_reg01 = burst_header ''1'' ''51''
     (reg_line ''Reg0B'' ''6666666733333333''
      @ reg_line ''Reg0C'' ''000053E3000053E3'' @ reg_line ''Reg0D'' ''186A186A'')"

text \<open>What a run leaves to look at: the error, if any, and the attributes the
  properties below speak about.\<close>

definition observed :: "ApresHeader \<Rightarrow> pyfloat \<times> int option \<times> pyfloat option \<times> int option \<times> int option
    \<times> pynum option \<times> int option \<times> string option \<times> pyfloat option" where
  "observed h = (fs h, snum h, stopFreq h, noDwellHigh h, noDwellLow h, chirpLength h,
                 nchirpSamples h, rampDir h, nchirpsPerPeriod h)"


text \<open>The object as a run leaves it, whether it returned or raised.\<close>

definition outcome_state :: "'s outcome \<Rightarrow> 's" where
  "outcome_state r = (case r of Inl (e, s) \<Rightarrow> s | Inr s \<Rightarrow> s)"

text \<open>None of the scalars that \<open>update_parameters\<close> derives from the registers has been
  assigned.\<close>

definition derived_unset :: "ApresHeader \<Rightarrow> bool" where
  "derived_unset h = (nstepsDDS h = None \<and> chirpLength h = None \<and> nchirpSamples h = None
                      \<and> K h = None \<and> rampDir h = None \<and> nchirpsPerPeriod h = None)"

text \<open>A header with the two scalar tokens and no register line at all.\<close>

definition hdr_no_regs :: string where
  "hdr_no_regs = burst_header ''0'' ''40000'' []"

section \<open>The Gecko trace file (load\_gecko)\<close>

subsection \<open>Reading typed fields from the byte stream\<close>

text \<open>
  The file is the list of the bytes still ahead of the cursor: \<open>fid.tell() < eof\<close> holds
  as long as the list is not empty. \<open>np.fromfile(fid, dtype, 1)[0]\<close> takes one item of
  the type's width; at the end of the file the array it indexes is empty, which raises
  IndexError. A read without \<open>[0]\<close> never raises: it takes what is left.
\<close>

type_synonym byte = "8 word"

type_synonym 'a reader = "byte list \<Rightarrow> py_error + ('a \<times> byte list)"

definition rd_item :: "nat \<Rightarrow> (byte list) reader" where
  "rd_item n bs = (if length bs < n then Inl IndexError else Inr (take n bs, drop n bs))"

definition rd_map :: "('a \<Rightarrow> 'b) \<Rightarrow> 'a reader \<Rightarrow> 'b reader" where
  "rd_map f r bs = (case r bs of Inl e \<Rightarrow> Inl e | Inr (x, rest) \<Rightarrow> Inr (f x, rest))"

definition rd_bind :: "'a reader \<Rightarrow> ('a \<Rightarrow> 'b reader) \<Rightarrow> 'b reader" where
  "rd_bind r f bs = (case r bs of Inl e \<Rightarrow> Inl e | Inr (x, rest) \<Rightarrow> f x rest)"

definition rd_return :: "'a \<Rightarrow> 'a reader" where
  "rd_return x bs = Inr (x, bs)"

text \<open>\<open>np.fromfile(fid, np.int8, n)\<close> and \<open>fid.read(n)\<close>, result dropped.\<close>

definition rd_skip :: "nat \<Rightarrow> unit reader" where
  "rd_skip n bs = Inr ((), drop n bs)"

text \<open>Little-endian integers, unsigned and two's complement.\<close>

fun le_int :: "byte list \<Rightarrow> int" where
  "le_int [] = 0"
| "le_int (b # bs) = uint b + 256 * le_int bs"

definition signed :: "nat \<Rightarrow> int \<Rightarrow> int" where
  "signed bits n = (if 2 ^ (bits - 1) \<le> n then n - 2 ^ bits else n)"

definition rd_u8 :: "int reader" where
  "rd_u8 = rd_map le_int (rd_item 1)"

definition rd_i8 :: "int reader" where
  "rd_i8 = rd_map (\<lambda>b. signed 8 (le_int b)) (rd_item 1)"

definition rd_i16 :: "int reader" where
  "rd_i16 = rd_map (\<lambda>b. signed 16 (le_int b)) (rd_item 2)"

definition rd_i32 :: "int reader" where
  "rd_i32 = rd_map (\<lambda>b. signed 32 (le_int b)) (rd_item 4)"

text \<open>The value of a binary64 and of a binary32 bit pattern.\<close>

definition f64_val :: "int \<Rightarrow> pyfloat" where
  "f64_val n =
     (let s = n div 9223372036854775808; e = (n div 4503599627370496) mod 2048;
          m = n mod 4503599627370496; sg = (if s = 0 then 1 else - 1)
      in if e = 2047 then (if m = 0 then (if s = 0 then PInf else NInf) else NaN)
         else if e = 0 then Fin (sg * of_int m * pow2 (- 1074))
         else Fin (sg * of_int (4503599627370496 + m) * pow2 (e - 1075)))"

definition f32_val :: "int \<Rightarrow> pyfloat" where
  "f32_val n =
     (let s = n div 2147483648; e = (n div 8388608) mod 256;
          m = n mod 8388608; sg = (if s = 0 then 1 else - 1)
      in if e = 255 then (if m = 0 then (if s = 0 then PInf else NInf) else NaN)
         else if e = 0 then Fin (sg * of_int m * pow2 (- 149))
         else Fin (sg * of_int (8388608 + m) * pow2 (e - 150)))"

definition rd_f64 :: "pyfloat reader" where
  "rd_f64 = rd_map (\<lambda>b. f64_val (le_int b)) (rd_item 8)"

definition rd_f32 :: "pyfloat reader" where
  "rd_f32 = rd_map (\<lambda>b. f32_val (le_int b)) (rd_item 4)"

text \<open>\<open>date(1970,1,1).toordinal()\<close>, and a day number read from the file with that
  offset added (a binary64 addition).\<close>

definition epoch_ordinal :: pyfloat where
  "epoch_ordinal = Fin 719163"

definition rd_day :: "pyfloat reader" where
  "rd_day = rd_map (\<lambda>x. fadd x epoch_ordinal) rd_f64"

text \<open>\<open>self.Version = int16 / 100\<close>, a binary64 division, and the four decimal
  literals it is compared with (each the binary64 value nearest to the decimal).\<close>

definition version_of :: "int \<Rightarrow> pyfloat" where
  "version_of raw = fl64 (of_int raw / 100)"

definition flt :: "pyfloat \<Rightarrow> pyfloat \<Rightarrow> bool" where
  "flt x y = fgt y x"

definition v3_2 :: pyfloat where "v3_2 = fl64 (32 / 10)"
definition v3_21 :: pyfloat where "v3_21 = fl64 (321 / 100)"
definition v3_6 :: pyfloat where "v3_6 = fl64 (36 / 10)"
definition v3_8 :: pyfloat where "v3_8 = fl64 (38 / 10)"

subsection \<open>The file header and the channel headers\<close>

text \<open>The attributes \<open>gecko.__init__\<close> reads from the file header. \<open>snum_gecko\<close> is the
  attribute \<open>snum\<close>: the sum of two \<open>np.int16\<close> scalars, which wraps around. The display
  strings of the enumerations and \<open>travel_time\<close> are left out: they read nothing from
  the file and cannot raise.\<close>

record gecko_header =
  Version :: pyfloat
  Serialtime :: pyfloat
  Timezone :: int
  nChannels :: nat
  RecordMode :: int
  RecordInterval :: int
  NumberOfStacks :: int
  SampFreq :: pyfloat
  PreTriggerDepth :: int
  PostTriggerDepth :: int
  snum_gecko :: int
  TriggerSource :: int
  TriggerSlope :: int
  ExtTriggerRange :: int
  ExtTriggerCoupling :: int
  OdometerCalibration :: "int option"
  NominalFrequency :: pynum
  AntennaSeparation :: pyfloat

definition gecko_file_header :: "gecko_header reader" where
  "gecko_file_header =
     rd_bind rd_i16 (\<lambda>ver. let V = version_of ver in
     rd_bind (rd_skip 64) (\<lambda>fname.
     rd_bind rd_day (\<lambda>serial.
     rd_bind rd_i16 (\<lambda>tz.
     rd_bind rd_u8 (\<lambda>nch.
     rd_bind rd_u8 (\<lambda>mode.
     rd_bind rd_i16 (\<lambda>interval.
     rd_bind rd_i16 (\<lambda>stacks.
     rd_bind rd_i16 (\<lambda>sf.
     rd_bind rd_i16 (\<lambda>pre.
     rd_bind rd_i16 (\<lambda>post.
     rd_bind rd_i8 (\<lambda>tsrc.
     rd_bind rd_u8 (\<lambda>tslope.
     rd_bind rd_i16 (\<lambda>trange.
     rd_bind rd_u8 (\<lambda>tcoup.
     rd_bind (if flt V v3_21 then rd_map Some rd_i16 else rd_return None) (\<lambda>odo.
     rd_bind (if flt V v3_8 then rd_map NInt rd_i16 else rd_map NFloat rd_f32) (\<lambda>nomf.
     rd_bind rd_f32 (\<lambda>ant.
     rd_bind (if flt V v3_6 then rd_skip 27 else rd_return ()) (\<lambda>pad.
     rd_return
       \<lparr> Version = V, Serialtime = serial, Timezone = tz div 1440, nChannels = nat nch,
         RecordMode = mode, RecordInterval = interval, NumberOfStacks = stacks,
         SampFreq = fmul (Fin (of_int sf)) (Fin 1000000),
         PreTriggerDepth = pre, PostTriggerDepth = post,
         snum_gecko = signed 16 ((pre + post) mod 65536),
         TriggerSource = tsrc, TriggerSlope = tslope, ExtTriggerRange = trange,
         ExtTriggerCoupling = tcoup, OdometerCalibration = odo, NominalFrequency = nomf,
         AntennaSeparation = ant \<rparr>)))))))))))))))))))"

text \<open>One channel header: the channel number must be the 1-based position \<open>nn + 1\<close>;
  then voltage range, impedance and coupling, and 27 blank bytes before version 3.6.\<close>

definition corrupt_channel :: py_error where
  "corrupt_channel = TypeError ''Corrupt Channel header''"

definition channel_header :: "pyfloat \<Rightarrow> nat \<Rightarrow> (int \<times> int \<times> int) reader" where
  "channel_header V nn =
     rd_bind rd_u8 (\<lambda>nChan.
       if nChan \<noteq> int nn + 1 then (\<lambda>bs. Inl corrupt_channel)
       else
         rd_bind rd_i16 (\<lambda>volt.
         rd_bind rd_u8 (\<lambda>imp.
         rd_bind rd_u8 (\<lambda>coup.
         rd_bind (if flt V v3_6 then rd_skip 27 else rd_return ()) (\<lambda>pad.
         rd_return (volt, imp, coup))))))"

text \<open>\<open>for nn in range(self.nChannels)\<close>, from \<open>nn\<close> on, with \<open>k\<close> channels to go.\<close>

fun channel_headers :: "pyfloat \<Rightarrow> nat \<Rightarrow> nat \<Rightarrow> ((int \<times> int \<times> int) list) reader" where
  "channel_headers V nn 0 bs = Inr ([], bs)"
| "channel_headers V nn (Suc k) bs =
     (case channel_header V nn bs of
        Inl e \<Rightarrow> Inl e
      | Inr (c, rest) \<Rightarrow> rd_map (\<lambda>cs. c # cs) (channel_headers V (Suc nn) k) rest)"

subsection \<open>The trace records\<close>

text \<open>
  The per-trace columns, all created empty in the first pass of the \<open>while\<close> loop.
  \<open>data\<close> is a two-dimensional array: its shape and its rows. The columns are float
  arrays; the integers appended to \<open>trace_num\<close> and \<open>data\<close> are held exactly.
\<close>

record trace_cols =
  trace_num :: "int list"
  decday :: "pyfloat list"
  trace_int :: "pyfloat list"
  trig_level :: "pyfloat list"
  Odometer :: "pyfloat list"
  pressure :: "pyfloat list"
  lat :: "pyfloat list"
  long :: "pyfloat list"
  elev :: "pyfloat list"
  GPSResolution :: "pyfloat list"
  data :: "int list list"
  data_shape :: "nat \<times> nat"

text \<open>What the loop carries from one record to the next: the columns, and the local
  variable \<open>newdata\<close>, which is unbound until a data record has been read and keeps its
  value afterwards, across channels and traces.\<close>

record loop_vars =
  cols :: trace_cols
  newdata :: "int list option"

datatype flow = Continue | Break

text \<open>The fields of a trace header, as read for every record type.\<close>

record trace_fields =
  f_trace_num :: int
  f_decday :: pyfloat
  f_trace_int :: pyfloat
  f_trig_level :: int
  f_odo_pressure :: "(pyfloat \<times> pyfloat) option"
  f_lat :: pyfloat
  f_long :: pyfloat
  f_elev :: pyfloat
  f_GPSResolution :: pyfloat

definition rd_trace_fields :: "pyfloat \<Rightarrow> trace_fields reader" where
  "rd_trace_fields V =
     rd_bind rd_i32 (\<lambda>tn.
     rd_bind rd_day (\<lambda>dd.
     rd_bind rd_f32 (\<lambda>ti.
     rd_bind rd_i16 (\<lambda>tl.
     rd_bind (if flt V v3_21
              then rd_bind rd_f32 (\<lambda>odo. rd_bind rd_f32 (\<lambda>pr. rd_return (Some (odo, pr))))
              else rd_return None) (\<lambda>op.
     rd_bind rd_f64 (\<lambda>la.
     rd_bind rd_f64 (\<lambda>lo.
     rd_bind rd_f32 (\<lambda>el.
     rd_bind rd_f32 (\<lambda>gps.
     rd_bind (if flt V v3_6 then (if flt V v3_2 then rd_skip 12 else rd_skip 14)
              else rd_return ()) (\<lambda>pad.
     rd_return \<lparr> f_trace_num = tn, f_decday = dd, f_trace_int = ti, f_trig_level = tl,
                 f_odo_pressure = op, f_lat = la, f_long = lo, f_elev = el,
                 f_GPSResolution = gps \<rparr>))))))))))"

text \<open>\<open>np.fromfile(fid, np.uint8, 1)\<close> without \<open>[0]\<close>: an array of one item, or of none at
  the end of the file.\<close>

definition rd_header_type :: "(int option) reader" where
  "rd_header_type bs = (case bs of [] \<Rightarrow> Inr (None, []) | b # rest \<Rightarrow> Inr (Some (uint b), rest))"

text \<open>\<open>np.fromfile(fid, np.int16, snum)\<close>: the complete items among the next \<open>2 * snum\<close>
  bytes; a short file gives a short array, not an error.\<close>

fun int16_items :: "byte list \<Rightarrow> int list" where
  "int16_items (a # b # bs) = signed 16 (le_int [a, b]) # int16_items bs"
| "int16_items bs = []"

definition rd_samples :: "nat \<Rightarrow> (int list) reader" where
  "rd_samples n bs = Inr (int16_items (take (2 * n) bs), drop (2 * n) bs)"

text \<open>
  The marker branch: a marker number and a trace number are read and dropped; then
  \<open>np.fromfile(fid, np.float64, 1) + date(1970,1,1)\<close> adds a \<open>date\<close> object (not its
  ordinal) to the array, which raises TypeError as soon as the array holds an item,
  that is when eight more bytes are there. With fewer bytes the array is empty, the sum
  is an empty array, the cursor is at the end and the remaining reads find nothing.
\<close>

definition date_plus_error :: py_error where
  "date_plus_error = TypeError ''unsupported operand type(s) for +: float and datetime.date''"

definition rd_marker :: "unit reader" where
  "rd_marker =
     rd_bind (rd_skip 2) (\<lambda>nNumber.
     rd_bind (rd_skip 4) (\<lambda>buffer.
     (\<lambda>bs. if 8 \<le> length bs then Inl date_plus_error
            else rd_bind (rd_skip 8) (\<lambda>buffer.
                 rd_bind (rd_skip 8) (\<lambda>buffer.
                 rd_bind (rd_skip 8) (\<lambda>buffer.
                 rd_bind (rd_skip 4) (\<lambda>buffer.
                 rd_skip 4)))) bs)))"

text \<open>The appends made for channel 1 (\<open>if nn+1 == 1\<close>).\<close>

definition append_scalars :: "trace_fields \<Rightarrow> trace_cols \<Rightarrow> trace_cols" where
  "append_scalars f c =
     c\<lparr> trace_num := trace_num c @ [f_trace_num f],
        decday := decday c @ [f_decday f],
        trace_int := trace_int c @ [f_trace_int f],
        trig_level := trig_level c @ [Fin (of_int (f_trig_level f))],
        Odometer := (case f_odo_pressure f of None \<Rightarrow> Odometer c
                     | Some (odo, pr) \<Rightarrow> Odometer c @ [odo]),
        pressure := (case f_odo_pressure f of None \<Rightarrow> pressure c
                     | Some (odo, pr) \<Rightarrow> pressure c @ [pr]),
        lat := lat c @ [f_lat f],
        long := long c @ [f_long f],
        elev := elev c @ [f_elev f],
        GPSResolution := GPSResolution c @ [f_GPSResolution f] \<rparr>"

text \<open>\<open>self.data = np.append(self.data, [newdata], axis=0)\<close>: \<open>newdata\<close> must be bound,
  and its length must be the row length of \<open>data\<close>.\<close>

definition append_data :: "loop_vars \<Rightarrow> py_error + loop_vars" where
  "append_data st =
     (case newdata st of
        None \<Rightarrow> Inl (UnboundLocalError ''newdata'')
      | Some d \<Rightarrow>
          if length d \<noteq> snd (data_shape (cols st))
          then Inl (ValueError ''all the input array dimensions except for the concatenation axis must match exactly'')
          else Inr (st\<lparr>cols := (cols st)\<lparr> data := data (cols st) @ [d],
                        data_shape := (Suc (fst (data_shape (cols st))), snd (data_shape (cols st))) \<rparr>\<rparr>))"

text \<open>One pass of \<open>for nn in range(self.nChannels)\<close>: the header type, the channel
  number and its check, the trace fields, then the branch on the header type (a data
  record reads the samples, a marker reads its payload and breaks, any other type reads
  nothing), then the two appends.\<close>

definition read_record :: "pyfloat \<Rightarrow> nat \<Rightarrow> int \<Rightarrow> nat \<Rightarrow> loop_vars \<Rightarrow> (flow \<times> loop_vars) reader" where
  "read_record V nsamp ch nn st =
     rd_bind rd_header_type (\<lambda>nHeaderType.
     rd_bind rd_u8 (\<lambda>nChan.
       if nChan \<noteq> int nn + 1 then (\<lambda>bs. Inl corrupt_channel)
       else
         rd_bind (rd_trace_fields V) (\<lambda>f.
         rd_bind (if nHeaderType = Some 0
                  then rd_map (\<lambda>d. (Continue, st\<lparr>newdata := Some d\<rparr>)) (rd_samples nsamp)
                  else if nHeaderType = Some 1
                  then rd_map (\<lambda>u. (Break, st)) rd_marker
                  else rd_return (Continue, st)) (\<lambda>(fl, st1).
           if fl = Break then rd_return (Break, st1)
           else
             let st2 = (if int nn + 1 = 1 then st1\<lparr>cols := append_scalars f (cols st1)\<rparr> else st1)
             in if int nn + 1 = ch
                then (\<lambda>bs. case append_data st2 of Inl e \<Rightarrow> Inl e
                                                  | Inr st3 \<Rightarrow> Inr ((Continue, st3), bs))
                else rd_return (Continue, st2)))))"

fun chan_loop :: "pyfloat \<Rightarrow> nat \<Rightarrow> int \<Rightarrow> nat \<Rightarrow> nat \<Rightarrow> loop_vars \<Rightarrow> loop_vars reader" where
  "chan_loop V nsamp ch nn 0 st bs = Inr (st, bs)"
| "chan_loop V nsamp ch nn (Suc k) st bs =
     (case read_record V nsamp ch nn st bs of
        Inl e \<Rightarrow> Inl e
      | Inr ((fl, st1), rest) \<Rightarrow>
          if fl = Break then Inr (st1, rest) else chan_loop V nsamp ch (Suc nn) k st1 rest)"

text \<open>The columns as the first pass creates them (\<open>if nTrc == 1\<close>);
  \<open>np.empty((0, self.snum))\<close> raises on a negative \<open>snum\<close>.\<close>

definition empty_cols :: "nat \<Rightarrow> trace_cols" where
  "empty_cols n =
     \<lparr> trace_num = [], decday = [], trace_int = [], trig_level = [], Odometer = [],
       pressure = [], lat = [], long = [], elev = [], GPSResolution = [], data = [],
       data_shape = (0, n) \<rparr>"

definition first_pass :: "int \<Rightarrow> loop_vars option \<Rightarrow> py_error + loop_vars" where
  "first_pass nsamp sto =
     (case sto of
        Some st \<Rightarrow> Inr st
      | None \<Rightarrow> if nsamp < 0 then Inl (ValueError ''negative dimensions are not allowed'')
                else Inr \<lparr> cols = empty_cols (nat nsamp), newdata = None \<rparr>)"

text \<open>One pass of the \<open>while\<close> loop.\<close>

definition trace_pass :: "gecko_header \<Rightarrow> int \<Rightarrow> loop_vars option \<Rightarrow> loop_vars reader" where
  "trace_pass h ch sto bs =
     (case first_pass (snum_gecko h) sto of
        Inl e \<Rightarrow> Inl e
      | Inr st \<Rightarrow> chan_loop (Version h) (nat (snum_gecko h)) ch 0 (nChannels h) st bs)"

text \<open>\<open>while fid.tell() < eof\<close>. With no channel a pass reads nothing, and the loop
  never ends if a byte is left: no result, \<open>None\<close>.\<close>

partial_function (option) trace_loop ::
    "gecko_header \<Rightarrow> int \<Rightarrow> loop_vars option \<Rightarrow> byte list \<Rightarrow> (py_error + loop_vars option) option" where
  "trace_loop h ch sto bs =
     (if bs = [] then Some (Inr sto)
      else case trace_pass h ch sto bs of
             Inl e \<Rightarrow> Some (Inl e)
           | Inr (st, rest) \<Rightarrow> trace_loop h ch (Some st) rest)"

declare trace_loop.simps [code]

subsection \<open>The finished object\<close>

record gecko =
  file_header :: gecko_header
  channels :: "(int \<times> int \<times> int) list"
  chan :: int
  final_cols :: trace_cols
  tnum :: nat
  x_coord :: "pyfloat list"
  y_coord :: "pyfloat list"
  dist_arr :: "int list"
  trig :: "pyfloat list"

text \<open>\<open>np.transpose\<close> of the rows.\<close>

definition transpose_rows :: "nat \<Rightarrow> int list list \<Rightarrow> int list list" where
  "transpose_rows n rows = map (\<lambda>j. map (\<lambda>row. row ! j) rows) [0..<n]"

text \<open>
  The end of \<open>__init__\<close>. \<open>self.data\<close> exists only once the loop has made a pass: the
  class never calls the initialiser of its base class, so on a file that ends with the
  channel headers \<open>np.transpose(self.data)\<close> raises AttributeError. \<open>trig_level\<close> is
  replaced by zeros, and so is \<open>pressure\<close> from version 3.6 on.
\<close>

definition finalize :: "gecko_header \<Rightarrow> (int \<times> int \<times> int) list \<Rightarrow> int \<Rightarrow> loop_vars option \<Rightarrow> py_error + gecko" where
  "finalize h chs ch sto =
     (case sto of
        None \<Rightarrow> Inl (AttributeError ''data'')
      | Some st \<Rightarrow>
          let c = cols st; r = fst (data_shape c); s = snd (data_shape c);
              zeros = replicate r (Fin 0)
          in Inr \<lparr> file_header = h, channels = chs, chan = ch,
                   final_cols = c\<lparr> data := transpose_rows s (data c), data_shape := (s, r),
                                    trig_level := zeros,
                                    pressure := (if flt (Version h) v3_6 then pressure c else zeros) \<rparr>,
                   tnum = r, x_coord = zeros, y_coord = zeros,
                   dist_arr = map int [0..<r], trig = zeros \<rparr>)"

text \<open>\<open>gecko(fn, channel)\<close> on the bytes of the file: \<open>None\<close> if it never returns,
  otherwise the error raised or the object built. An error leaves no object.\<close>

definition gecko_init :: "int \<Rightarrow> byte list \<Rightarrow> (py_error + gecko) option" where
  "gecko_init ch bs =
     (case gecko_file_header bs of
        Inl e \<Rightarrow> Some (Inl e)
      | Inr (h, bs1) \<Rightarrow>
          (case channel_headers (Version h) 0 (nChannels h) bs1 of
             Inl e \<Rightarrow> Some (Inl e)
           | Inr (chs, bs2) \<Rightarrow>
               (case trace_loop h ch None bs2 of
                  None \<Rightarrow> None
                | Some (Inl e) \<Rightarrow> Some (Inl e)
                | Some (Inr sto) \<Rightarrow> Some (finalize h chs ch sto))))"

subsection \<open>Trace records as they are written to a file\<close>

text \<open>
  A record as a writer lays it out: each field is the bytes injected for it.
  \<open>r_odometer\<close> and \<open>r_pressure\<close> are written before version 3.21 only, \<open>r_pad\<close> before
  version 3.6 only; \<open>r_payload\<close> is whatever follows the trace header (the samples of a
  data record).
\<close>

record raw_record =
  r_type :: byte
  r_chan :: byte
  r_trace_num :: "byte list"
  r_decday :: "byte list"
  r_trace_int :: "byte list"
  r_trig_level :: "byte list"
  r_odometer :: "byte list"
  r_pressure :: "byte list"
  r_lat :: "byte list"
  r_long :: "byte list"
  r_elev :: "byte list"
  r_gps :: "byte list"
  r_pad :: "byte list"
  r_payload :: "byte list"

definition enc_fields :: "pyfloat \<Rightarrow> raw_record \<Rightarrow> byte list" where
  "enc_fields V r =
     r_trace_num r @ r_decday r @ r_trace_int r @ r_trig_level r
     @ (if flt V v3_21 then r_odometer r @ r_pressure r else [])
     @ r_lat r @ r_long r @ r_elev r @ r_gps r
     @ (if flt V v3_6 then r_pad r else [])"

definition enc_head :: "pyfloat \<Rightarrow> raw_record \<Rightarrow> byte list" where
  "enc_head V r = r_type r # r_chan r # enc_fields V r"

definition enc_record :: "pyfloat \<Rightarrow> raw_record \<Rightarrow> byte list" where
  "enc_record V r = enc_head V r @ r_payload r"

definition enc_trace :: "pyfloat \<Rightarrow> raw_record list \<Rightarrow> byte list" where
  "enc_trace V rs = concat (map (enc_record V) rs)"

text \<open>Every field has the width of its type.\<close>

definition wf_fields :: "pyfloat \<Rightarrow> raw_record \<Rightarrow> bool" where
  "wf_fields V r =
     (length (r_trace_num r) = 4 \<and> length (r_decday r) = 8 \<and> length (r_trace_int r) = 4
      \<and> length (r_trig_level r) = 2
      \<and> (flt V v3_21 \<longrightarrow> length (r_odometer r) = 4 \<and> length (r_pressure r) = 4)
      \<and> length (r_lat r) = 8 \<and> length (r_long r) = 8 \<and> length (r_elev r) = 4
      \<and> length (r_gps r) = 4
      \<and> (flt V v3_6 \<longrightarrow> length (r_pad r) = (if flt V v3_2 then 12 else 14)))"

text \<open>A data record of channel \<open>nn + 1\<close> with \<open>nsamp\<close> samples.\<close>

definition data_record :: "pyfloat \<Rightarrow> nat \<Rightarrow> nat \<Rightarrow> raw_record \<Rightarrow> bool" where
  "data_record V nsamp nn r =
     (wf_fields V r \<and> r_type r = 0 \<and> uint (r_chan r) = int nn + 1
      \<and> length (r_payload r) = 2 * nsamp)"

fun data_records :: "pyfloat \<Rightarrow> nat \<Rightarrow> nat \<Rightarrow> raw_record list \<Rightarrow> bool" where
  "data_records V nsamp nn [] = True"
| "data_records V nsamp nn (r # rs) = (data_record V nsamp nn r \<and> data_records V nsamp (Suc nn) rs)"

text \<open>A trace: one data record for each of the \<open>n\<close> channels, in channel order.\<close>

definition wf_trace :: "pyfloat \<Rightarrow> nat \<Rightarrow> nat \<Rightarrow> raw_record list \<Rightarrow> bool" where
  "wf_trace V nsamp n rs = (length rs = n \<and> data_records V nsamp 0 rs)"

text \<open>The values that the injected bytes denote.\<close>

definition rec_fields :: "pyfloat \<Rightarrow> raw_record \<Rightarrow> trace_fields" where
  "rec_fields V r =
     \<lparr> f_trace_num = signed 32 (le_int (r_trace_num r)),
       f_decday = fadd (f64_val (le_int (r_decday r))) epoch_ordinal,
       f_trace_int = f32_val (le_int (r_trace_int r)),
       f_trig_level = signed 16 (le_int (r_trig_level r)),
       f_odo_pressure = (if flt V v3_21
                         then Some (f32_val (le_int (r_odometer r)), f32_val (le_int (r_pressure r)))
                         else None),
       f_lat = f64_val (le_int (r_lat r)),
       f_long = f64_val (le_int (r_long r)),
       f_elev = f32_val (le_int (r_elev r)),
       f_GPSResolution = f32_val (le_int (r_gps r)) \<rparr>"

definition rec_samples :: "raw_record \<Rightarrow> int list" where
  "rec_samples r = int16_items (r_payload r)"

text \<open>What decoding one data record of channel \<open>nn + 1\<close> does to the columns, and what
  decoding the records of a trace from channel \<open>nn + 1\<close> on does to the loop variables.\<close>

definition push_row :: "int list \<Rightarrow> trace_cols \<Rightarrow> trace_cols" where
  "push_row d c = c\<lparr> data := data c @ [d],
                     data_shape := (Suc (fst (data_shape c)), snd (data_shape c)) \<rparr>"

definition rec_cols :: "pyfloat \<Rightarrow> int \<Rightarrow> nat \<Rightarrow> raw_record \<Rightarrow> trace_cols \<Rightarrow> trace_cols" where
  "rec_cols V ch nn r c =
     (let c1 = (if nn = 0 then append_scalars (rec_fields V r) c else c)
      in if int nn + 1 = ch then push_row (rec_samples r) c1 else c1)"

fun records_effect :: "pyfloat \<Rightarrow> int \<Rightarrow> nat \<Rightarrow> raw_record list \<Rightarrow> loop_vars \<Rightarrow> loop_vars" where
  "records_effect V ch nn [] st = st"
| "records_effect V ch nn (r # rs) st =
     records_effect V ch (Suc nn) rs
       \<lparr> cols = rec_cols V ch nn r (cols st), newdata = Some (rec_samples r) \<rparr>"

text \<open>The columns after a whole trace, and after a list of traces.\<close>

definition trace_step :: "pyfloat \<Rightarrow> int \<Rightarrow> trace_cols \<Rightarrow> raw_record list \<Rightarrow> trace_cols" where
  "trace_step V ch c rs =
     push_row (rec_samples (rs ! (nat ch - 1))) (append_scalars (rec_fields V (hd rs)) c)"

definition traces_cols :: "pyfloat \<Rightarrow> int \<Rightarrow> trace_cols \<Rightarrow> raw_record list list \<Rightarrow> trace_cols" where
  "traces_cols V ch c ts = foldl (trace_step V ch) c ts"


text \<open>The loop variables after a list of traces.\<close>

definition traces_effect :: "pyfloat \<Rightarrow> int \<Rightarrow> loop_vars \<Rightarrow> raw_record list list \<Rightarrow> loop_vars" where
  "traces_effect V ch st ts = foldl (\<lambda>s rs. records_effect V ch 0 rs s) st ts"

text \<open>A comment record of channel \<open>nn + 1\<close>: the type byte 2 and a trace header. Its
  bytes before the payload are \<open>enc_head\<close>.\<close>

definition comment_record :: "pyfloat \<Rightarrow> nat \<Rightarrow> raw_record \<Rightarrow> bool" where
  "comment_record V nn r = (wf_fields V r \<and> r_type r = 2 \<and> uint (r_chan r) = int nn + 1)"

fun comment_records :: "pyfloat \<Rightarrow> nat \<Rightarrow> raw_record list \<Rightarrow> bool" where
  "comment_records V nn [] = True"
| "comment_records V nn (r # rs) = (comment_record V nn r \<and> comment_records V (Suc nn) rs)"

subsection \<open>Example files\<close>

text \<open>\<open>n\<close> bytes, little-endian, of an integer.\<close>

fun le_bytes :: "nat \<Rightarrow> int \<Rightarrow> byte list" where
  "le_bytes 0 v = []"
| "le_bytes (Suc n) v = word_of_int (v mod 256) # le_bytes n (v div 256)"

text \<open>A file header of version 3.80 (no odometer calibration, a 4-byte nominal
  frequency, no blank bytes) for \<open>nch\<close> channels and \<open>pre + post\<close> samples a trace.\<close>

definition example_file_header :: "int \<Rightarrow> int \<Rightarrow> int \<Rightarrow> byte list" where
  "example_file_header nch pre post =
     le_bytes 2 380 @ replicate 64 0 @ le_bytes 8 0 @ le_bytes 2 0 @ le_bytes 1 nch
     @ le_bytes 1 1 @ le_bytes 2 0 @ le_bytes 2 1 @ le_bytes 2 100 @ le_bytes 2 pre
     @ le_bytes 2 post @ le_bytes 1 1 @ le_bytes 1 0 @ le_bytes 2 1000 @ le_bytes 1 0
     @ le_bytes 4 1077936128 @ le_bytes 4 1114636288"

definition example_channel_header :: "int \<Rightarrow> byte list" where
  "example_channel_header k = le_bytes 1 k @ le_bytes 2 500 @ le_bytes 1 0 @ le_bytes 1 0"

text \<open>A record of the given type and channel: trace number \<open>tn\<close>, trigger level \<open>lev\<close>,
  day 1.0, interval 3.0, latitude 1.0, longitude 2.0 (as bit patterns), and the given
  payload.\<close>

definition example_record :: "int \<Rightarrow> int \<Rightarrow> int \<Rightarrow> int \<Rightarrow> byte list \<Rightarrow> raw_record" where
  "example_record ty k tn lev payload =
     \<lparr> r_type = word_of_int ty, r_chan = word_of_int k, r_trace_num = le_bytes 4 tn,
       r_decday = le_bytes 8 4607182418800017408, r_trace_int = le_bytes 4 1077936128,
       r_trig_level = le_bytes 2 lev, r_odometer = [], r_pressure = [],
       r_lat = le_bytes 8 4607182418800017408, r_long = le_bytes 8 4611686018427387904,
       r_elev = le_bytes 4 1114636288, r_gps = le_bytes 4 1077936128, r_pad = [],
       r_payload = payload \<rparr>"

definition samples_bytes :: "int list \<Rightarrow> byte list" where
  "samples_bytes xs = concat (map (le_bytes 2) xs)"

text \<open>One channel, two samples a trace, two data traces with trigger level 5.\<close>

definition one_channel_file :: "byte list" where
  "one_channel_file =
     example_file_header 1 0 2 @ example_channel_header 1
     @ enc_trace (version_of 380) [example_record 0 1 1 5 (samples_bytes [10, - 20])]
     @ enc_trace (version_of 380) [example_record 0 1 2 5 (samples_bytes [30, 40])]"

text \<open>The same with a marker record (type 1, with its 38 bytes) between the two
  traces.\<close>

definition marker_file :: "byte list" where
  "marker_file =
     example_file_header 1 0 2 @ example_channel_header 1
     @ enc_trace (version_of 380) [example_record 0 1 1 5 (samples_bytes [10, - 20])]
     @ enc_trace (version_of 380) [example_record 1 1 1 5 (replicate 38 0)]
     @ enc_trace (version_of 380) [example_record 0 1 2 5 (samples_bytes [30, 40])]"

text \<open>Two channels; the record of channel 2 is a comment (type 2, nothing after the
  trace header).\<close>

definition comment_file :: "byte list" where
  "comment_file =
     example_file_header 2 0 2 @ example_channel_header 1 @ example_channel_header 2
     @ enc_trace (version_of 380)
         [example_record 0 1 1 5 (samples_bytes [10, - 20]), example_record 2 2 1 5 []]"

text \<open>One channel; the first record is a comment.\<close>

definition comment_first_file :: "byte list" where
  "comment_first_file =
     example_file_header 1 0 2 @ example_channel_header 1
     @ enc_trace (version_of 380) [example_record 2 1 1 5 []]"

text \<open>Two channels; channel 2 of the second trace carries the channel number 3.\<close>

definition corrupt_record_file :: "byte list" where
  "corrupt_record_file =
     example_file_header 2 0 2 @ example_channel_header 1 @ example_channel_header 2
     @ enc_trace (version_of 380)
         [example_record 0 1 1 5 (samples_bytes [10, - 20]),
          example_record 0 2 1 5 (samples_bytes [11, - 21])]
     @ enc_trace (version_of 380)
         [example_record 0 1 2 5 (samples_bytes [30, 40]),
          example_record 0 3 2 5 (samples_bytes [31, 41])]"

text \<open>Two channels; the second channel header carries the channel number 1.\<close>

definition corrupt_header_file :: "byte list" where
  "corrupt_header_file =
     example_file_header 2 0 2 @ example_channel_header 1 @ example_channel_header 1
     @ enc_trace (version_of 380)
         [example_record 0 1 1 5 (samples_bytes [10, - 20]),
          example_record 0 2 1 5 (samples_bytes [11, - 21])]"

section \<open>Verified properties\<close>

subsection \<open>The attribute check\<close>

lemma check_guaranteed_None_iff:
  "check_guaranteed obj as = None \<longleftrightarrow> (\<forall>a\<in>set as. \<exists>v. obj a = Some v \<and> v \<noteq> PyNone)"
  by (induction as) (auto split: option.splits)

lemma check_guaranteed_is_ImpdarError:
  "check_guaranteed obj as = Some e \<Longrightarrow> \<exists>m. e = ImpdarError m"
  by (induction as) (auto split: option.splits if_splits)

lemma check_optional_None_iff:
  "check_optional obj as = None \<longleftrightarrow> (\<forall>a\<in>set as. obj a \<noteq> None)"
  by (induction as) (auto split: option.splits)

text \<open>
  C2. A record whose \<open>dt\<close> is missing or \<open>None\<close> makes \<open>check_attrs\<close> raise ImpdarError
  (whatever the other attributes are). A record whose nine guaranteed attributes are
  set to values other than \<open>None\<close>, whose five optional attributes are declared, and
  whose \<open>data\<close> is an array as the class documents it, passes: \<open>check_attrs\<close> returns.
\<close>

theorem check_attrs_dt:
  "((obj ''dt'' = None \<or> obj ''dt'' = Some PyNone) \<longrightarrow> (\<exists>m. check_attrs obj = Inl (ImpdarError m)))
   \<and> ((\<forall>a\<in>set attrs_guaranteed. \<exists>v. obj a = Some v \<and> v \<noteq> PyNone)
        \<and> (\<forall>a\<in>set attrs_optional. obj a \<noteq> None)
        \<and> (\<exists>d shp. obj ''data'' = Some (NdArray d shp))
      \<longrightarrow> (\<exists>obj'. check_attrs obj = Inr obj'))"
proof (intro conjI impI)
  assume dt: "obj ''dt'' = None \<or> obj ''dt'' = Some PyNone"
  have "''dt'' \<in> set attrs_guaranteed"
    by (simp add: attrs_guaranteed_def)
  with dt have "\<not> (\<forall>a\<in>set attrs_guaranteed. \<exists>v. obj a = Some v \<and> v \<noteq> PyNone)"
    by (metis option.distinct(1) option.inject)
  then have "check_guaranteed obj attrs_guaranteed \<noteq> None"
    by (simp only: check_guaranteed_None_iff not_False_eq_True)
  then obtain e where e: "check_guaranteed obj attrs_guaranteed = Some e"
    by auto
  then obtain m where "e = ImpdarError m"
    using check_guaranteed_is_ImpdarError by blast
  with e show "\<exists>m. check_attrs obj = Inl (ImpdarError m)"
    by (simp add: check_attrs_def)
next
  assume a: "(\<forall>a\<in>set attrs_guaranteed. \<exists>v. obj a = Some v \<and> v \<noteq> PyNone)
        \<and> (\<forall>a\<in>set attrs_optional. obj a \<noteq> None)
        \<and> (\<exists>d shp. obj ''data'' = Some (NdArray d shp))"
  then have g: "check_guaranteed obj attrs_guaranteed = None"
    and o: "check_optional obj attrs_optional = None"
    by (simp_all add: check_guaranteed_None_iff check_optional_None_iff)
  from a obtain d shp where "obj ''data'' = Some (NdArray d shp)"
    by blast
  with g o show "\<exists>obj'. check_attrs obj = Inr obj'"
    by (simp add: check_attrs_def)
qed

theorem check_attrs_dt_witness:
  "(\<exists>m. check_attrs (complete_record(''dt'' \<mapsto> PyNone)) = Inl (ImpdarError m))
   \<and> (\<exists>obj'. check_attrs complete_record = Inr obj')"
  using check_attrs_dt [of "complete_record(''dt'' \<mapsto> PyNone)"] check_attrs_dt [of complete_record]
  by (simp add: complete_record_def attrs_guaranteed_def attrs_optional_def)

subsection \<open>The format classification\<close>

text \<open>
  C4. A header with none of the four tokens (here one that spells \<open>RADAR_TIME\<close> with an
  underscore) does not make \<open>file_format\<close> raise: the method returns normally and the
  object is unchanged, with no format tag assigned.
\<close>

theorem file_format_unknown_returns:
  "file_format (init_header ''RADAR_TIME 2012'') = Inr (init_header ''RADAR_TIME 2012'')"
  by code_simp

subsection \<open>Runs of \<open>update_parameters\<close> on the example headers\<close>

lemma run_hdr_up:
  "map_sum (\<lambda>(e, h). (e, observed h)) observed (update_parameters (init_header hdr_up)) =
     Inr (Fin 40000, Some 40000, Some (Fin (1677721599609375 / 4194304)), Some 1, Some 0,
          Some (NInt 1), Some 40000, Some ''up'', None)"
  by code_simp


lemma run_hdr_no_reg01:
  "map_sum (\<lambda>(e, h). (e, observed h)) observed (update_parameters (init_header hdr_no_reg01)) =
     Inl (AttributeError ''noDwellHigh'', Fin 40000, Some 51,
          Some (Fin (3355443201171875 / 8388608)), None, None,
          Some (NFloat (Fin (734987459186865 / 576460752303423488))), Some 40000,
          Some ''down'', None)"
  by code_simp

lemma mode_token_hdr_up: "scalar_token hdr_up ''SamplingFreqMode='' = Some ''1''"
  by code_simp

lemma no_reg01_in_hdr: "\<not> py_in ''Reg01'' hdr_no_reg01"
  by code_simp

subsection \<open>Results of the sequencing combinators\<close>


lemma on_ok_Inr: "on_ok m s f = Inr y \<longleftrightarrow> (\<exists>x. m = Inr x \<and> f x = Inr y)"
  by (cases m) (simp_all add: on_ok_def)

lemma bindE_Inr: "bindE m f = Inr y \<longleftrightarrow> (\<exists>x. m = Inr x \<and> f x = Inr y)"
  by (cases m) (simp_all add: bindE_def)

lemma get_attr_Inr: "get_attr name v = Inr x \<longleftrightarrow> v = Some x"
  by (cases v) (simp_all add: get_attr_def)

subsection \<open>The sampling rate\<close>

text \<open>
  C3. On a header whose \<open>SamplingFreqMode\<close> token decodes to the text \<open>1\<close>,
  \<open>update_parameters\<close> returns with the sampling rate 40 kHz, not 80 kHz: the decoded
  flag is a string, and the comparison with the integer 1 is never true.
\<close>

theorem fs_mode1_is_40kHz:
  "scalar_token hdr_up ''SamplingFreqMode='' = Some ''1''
   \<and> (\<exists>h'. update_parameters (init_header hdr_up) = Inr h' \<and> fs h' = Fin 40000)"
  using run_hdr_up mode_token_hdr_up
  by (cases "update_parameters (init_header hdr_up)") (auto simp: observed_def)

subsection \<open>The ramp direction\<close>

lemma set_rampDir_Inr:
  "set_rampDir h = Inr h' \<Longrightarrow>
     \<exists>sp. stopFreq h = Some sp
       \<and> h' = h\<lparr>rampDir := Some (if fgt sp (Fin 400000000) then ''down'' else ''up'')\<rparr>"
  by (auto simp: set_rampDir_def on_ok_Inr get_attr_Inr)







subsection \<open>Absent registers\<close>

lemma startswith_append: "startswith (sub @ ss) sub"
  by (induction sub) simp_all

lemma find_from_absent:
  "find_from s sub i = - 1 \<Longrightarrow> s \<noteq> ps @ sub @ ss"
proof (induction s arbitrary: i ps)
  case Nil
  then show ?case by (auto split: if_splits)
next
  case (Cons c cs)
  from Cons.prems have ns: "\<not> startswith (c # cs) sub" and r: "find_from cs sub (Suc i) = - 1"
    by (auto split: if_splits)
  show ?case
  proof (cases ps)
    case Nil
    with ns show ?thesis using startswith_append [of sub ss] by auto
  next
    case (Cons p ps')
    with Cons.IH [OF r, of ps'] show ?thesis by auto
  qed
qed

lemma py_slice_is_substring: "\<exists>ps ss. s = ps @ py_slice s a b @ ss"
proof -
  define lo where "lo = slice_index (length s) a"
  define hi where "hi = slice_index (length s) b"
  have "take (hi - lo) (drop lo s) @ drop (hi - lo) (drop lo s) = drop lo s"
    by (rule append_take_drop_id)
  then have "s = take lo s @ take (hi - lo) (drop lo s) @ drop (hi - lo) (drop lo s)"
    by (simp only: append_take_drop_id)
  then show ?thesis
    unfolding py_slice_def Let_def lo_def hi_def by blast
qed

lemma py_slice_in: "py_slice s a b = t \<Longrightarrow> py_in t s"
  using find_from_absent py_slice_is_substring unfolding py_in_def py_find_def by metis


lemma on_ok_Inl:
  "on_ok m s f = Inl p \<longleftrightarrow> (\<exists>e. m = Inl e \<and> p = (e, s)) \<or> (\<exists>x. m = Inr x \<and> f x = Inl p)"
  by (cases m) (auto simp: on_ok_def)

lemma set_nstepsDDS_Inl: "set_nstepsDDS h = Inl (e, s) \<Longrightarrow> s = h"
  by (auto simp: set_nstepsDDS_def on_ok_Inl)

lemma set_nstepsDDS_Inr:
  "set_nstepsDDS h = Inr s \<Longrightarrow> \<exists>n. s = h\<lparr>nstepsDDS := Some n\<rparr> \<and> stopFreq h \<noteq> None \<and> rampUpStep h \<noteq> None"
  by (auto simp: set_nstepsDDS_def on_ok_Inr bindE_Inr get_attr_Inr)

lemma set_chirpLength_Inl: "set_chirpLength h = Inl (e, s) \<Longrightarrow> s = h"
  by (auto simp: set_chirpLength_def on_ok_Inl)

lemma set_chirpLength_Inr:
  "set_chirpLength h = Inr s \<Longrightarrow> \<exists>c. s = h\<lparr>chirpLength := Some (NInt c)\<rparr> \<and> tstepUp h \<noteq> None"
  by (auto simp: set_chirpLength_def on_ok_Inr bindE_Inr get_attr_Inr)

lemma set_nchirpSamples_Inl: "set_nchirpSamples h = Inl (e, s) \<Longrightarrow> s = h"
  by (auto simp: set_nchirpSamples_def on_ok_Inl)

lemma set_nchirpSamples_Inr:
  "set_nchirpSamples h = Inr s \<Longrightarrow> \<exists>n. s = h\<lparr>nchirpSamples := Some n\<rparr>"
  by (auto simp: set_nchirpSamples_def on_ok_Inr)

lemma set_K_Inl: "set_K h = Inl (e, s) \<Longrightarrow> s = h"
  by (auto simp: set_K_def on_ok_Inl)

lemma set_K_Inr: "set_K h = Inr s \<Longrightarrow> \<exists>k. s = h\<lparr>K := Some k\<rparr>"
  by (auto simp: set_K_def on_ok_Inr)

lemma set_rampDir_Inl: "set_rampDir h = Inl (e, s) \<Longrightarrow> s = h"
  by (auto simp: set_rampDir_def on_ok_Inl)

lemma set_fs_snum_Inl: "set_fs_snum hdr h = Inl (e, s) \<Longrightarrow> s = h\<lparr>fs := Fin 40000\<rparr>"
  by (auto simp: set_fs_snum_def on_ok_Inl str_eq_int_def Let_def)

lemma set_fs_snum_Inr: "set_fs_snum hdr h = Inr s \<Longrightarrow> \<exists>n. s = h\<lparr>fs := Fin 40000, snum := Some n\<rparr>"
  by (auto simp: set_fs_snum_def on_ok_Inr str_eq_int_def Let_def)
lemma clamp_chirpLength_Inl: "clamp_chirpLength h = Inl (e, s) \<Longrightarrow> s = h"
  by (auto simp: clamp_chirpLength_def on_ok_Inl split: if_splits)

lemma clamp_chirpLength_Inr:
  "clamp_chirpLength h = Inr s \<Longrightarrow> s = h \<or> (\<exists>c. s = h\<lparr>chirpLength := Some (NFloat c)\<rparr>)"
  by (auto simp: clamp_chirpLength_def on_ok_Inr split: if_splits)

lemma set_upDown_Inl: "set_upDown h = Inl (e, s) \<Longrightarrow> s = h"
  by (auto simp: set_upDown_def on_ok_Inl split: if_splits)

lemma set_upDown_unset: "noDwellHigh h = None \<Longrightarrow> set_upDown h = Inl (AttributeError ''noDwellHigh'', h)"
  by (simp add: set_upDown_def on_ok_def get_attr_def)

lemma outcome_state_simps:
  "outcome_state (Inl (e, s)) = s" "outcome_state (Inr s) = s"
  by (simp_all add: outcome_state_def)

lemma reg01_keeps:
  "derived_unset (outcome_state (reg01 v h)) = derived_unset h"
  "stopFreq (outcome_state (reg01 v h)) = stopFreq h"
  "rampUpStep (outcome_state (reg01 v h)) = rampUpStep h"
  "tstepUp (outcome_state (reg01 v h)) = tstepUp h"
  by (auto simp: reg01_def on_ok_def Let_def outcome_state_def derived_unset_def split: sum.splits)

lemma reg0B_keeps:
  "derived_unset (outcome_state (reg0B v h)) = derived_unset h"
  "noDwellHigh (outcome_state (reg0B v h)) = noDwellHigh h"
  "rampUpStep (outcome_state (reg0B v h)) = rampUpStep h"
  "tstepUp (outcome_state (reg0B v h)) = tstepUp h"
  by (auto simp: reg0B_def on_ok_def Let_def outcome_state_def derived_unset_def split: sum.splits)

lemma reg0C_keeps:
  "derived_unset (outcome_state (reg0C v h)) = derived_unset h"
  "noDwellHigh (outcome_state (reg0C v h)) = noDwellHigh h"
  "stopFreq (outcome_state (reg0C v h)) = stopFreq h"
  "tstepUp (outcome_state (reg0C v h)) = tstepUp h"
  by (auto simp: reg0C_def on_ok_def Let_def outcome_state_def derived_unset_def split: sum.splits)

lemma reg0D_keeps:
  "derived_unset (outcome_state (reg0D v h)) = derived_unset h"
  "noDwellHigh (outcome_state (reg0D v h)) = noDwellHigh h"
  "stopFreq (outcome_state (reg0D v h)) = stopFreq h"
  "rampUpStep (outcome_state (reg0D v h)) = rampUpStep h"
  by (auto simp: reg0D_def on_ok_def Let_def outcome_state_def derived_unset_def split: sum.splits)

lemma reg_case_derived:
  "derived_unset (outcome_state (reg_case hdr l1 l2 h)) = derived_unset h"
  by (simp add: reg_case_def Let_def reg01_keeps reg0B_keeps reg0C_keeps reg0D_keeps
        outcome_state_simps)

lemma reg_case_noDwellHigh:
  "\<not> py_in ''Reg01'' hdr \<Longrightarrow> noDwellHigh (outcome_state (reg_case hdr l1 l2 h)) = noDwellHigh h"
  using py_slice_in [of hdr "int l1" "int l2" "''Reg01''"]
  by (auto simp: reg_case_def Let_def reg0B_keeps reg0C_keeps reg0D_keeps outcome_state_simps)

lemma reg_case_stopFreq:
  "\<not> py_in ''Reg0B'' hdr \<Longrightarrow> stopFreq (outcome_state (reg_case hdr l1 l2 h)) = stopFreq h"
  using py_slice_in [of hdr "int l1" "int l2" "''Reg0B''"]
  by (auto simp: reg_case_def Let_def reg01_keeps reg0C_keeps reg0D_keeps outcome_state_simps)

lemma reg_case_rampUpStep:
  "\<not> py_in ''Reg0C'' hdr \<Longrightarrow> rampUpStep (outcome_state (reg_case hdr l1 l2 h)) = rampUpStep h"
  using py_slice_in [of hdr "int l1" "int l2" "''Reg0C''"]
  by (auto simp: reg_case_def Let_def reg01_keeps reg0B_keeps reg0D_keeps outcome_state_simps)

lemma reg_case_tstepUp:
  "\<not> py_in ''Reg0D'' hdr \<Longrightarrow> tstepUp (outcome_state (reg_case hdr l1 l2 h)) = tstepUp h"
  using py_slice_in [of hdr "int l1" "int l2" "''Reg0D''"]
  by (auto simp: reg_case_def Let_def reg01_keeps reg0B_keeps reg0C_keeps outcome_state_simps)

lemma reg_loop_keeps:
  assumes "\<And>l1 l2 h. f (outcome_state (reg_case hdr l1 l2 h)) = f h"
  shows "f (outcome_state (reg_loop hdr loc1 loc2 h)) = f h"
proof (induction loc1 arbitrary: loc2 h)
  case Nil
  show ?case by (simp add: outcome_state_simps)
next
  case (Cons l1 loc1)
  show ?case
  proof (cases loc2)
    case Nil
    then show ?thesis by (simp add: outcome_state_simps)
  next
    case c: (Cons l2 loc2')
    show ?thesis
    proof (cases "reg_case hdr l1 l2 h")
      case (Inl p)
      obtain e s where p: "p = (e, s)" by (cases p)
      from assms [of l1 l2 h] Inl p have "f s = f h"
        by (simp add: outcome_state_simps)
      with Inl p c show ?thesis
        by (simp add: and_then_def outcome_state_simps)
    next
      case (Inr h1)
      from assms [of l1 l2 h] Inr have "f h1 = f h"
        by (simp add: outcome_state_simps)
      with Cons.IH [of loc2' h1] Inr c show ?thesis
        by (simp add: and_then_def)
    qed
  qed
qed

lemma derive_parameters_steps:
  "derive_parameters hdr h =
     (case set_fs_snum hdr h of Inl p \<Rightarrow> Inl p | Inr h1 \<Rightarrow>
      case set_nstepsDDS h1 of Inl p \<Rightarrow> Inl p | Inr h2 \<Rightarrow>
      case set_chirpLength h2 of Inl p \<Rightarrow> Inl p | Inr h3 \<Rightarrow>
      case set_nchirpSamples h3 of Inl p \<Rightarrow> Inl p | Inr h4 \<Rightarrow>
      case clamp_chirpLength h4 of Inl p \<Rightarrow> Inl p | Inr h5 \<Rightarrow>
      case set_K h5 of Inl p \<Rightarrow> Inl p | Inr h6 \<Rightarrow>
      case set_rampDir h6 of Inl p \<Rightarrow> Inl p | Inr h7 \<Rightarrow> set_upDown h7)"
  by (simp add: derive_parameters_def and_then_def split: sum.splits)

lemma derive_fails:
  assumes du: "derived_unset h"
    and miss: "noDwellHigh h = None \<or> stopFreq h = None \<or> rampUpStep h = None \<or> tstepUp h = None"
  shows "\<exists>e s. derive_parameters hdr h = Inl (e, s) \<and> nchirpsPerPeriod s = None
      \<and> (stopFreq h = None \<or> rampUpStep h = None \<longrightarrow>
           nstepsDDS s = None \<and> chirpLength s = None \<and> nchirpSamples s = None \<and> K s = None
           \<and> rampDir s = None)
      \<and> (tstepUp h = None \<longrightarrow>
           chirpLength s = None \<and> nchirpSamples s = None \<and> K s = None \<and> rampDir s = None)"
proof (cases "set_fs_snum hdr h")
  case (Inl p)
  obtain e s where p: "p = (e, s)" by (cases p)
  with Inl have "s = h\<lparr>fs := Fin 40000\<rparr>" using set_fs_snum_Inl by blast
  with du Inl p show ?thesis
    by (auto simp add: derive_parameters_steps derived_unset_def)
next
  case r1: (Inr h1)
  then obtain n where h1: "h1 = h\<lparr>fs := Fin 40000, snum := Some n\<rparr>"
    using set_fs_snum_Inr by blast
  show ?thesis
  proof (cases "set_nstepsDDS h1")
    case (Inl p)
    obtain e s where p: "p = (e, s)" by (cases p)
    with Inl have "s = h1" using set_nstepsDDS_Inl by blast
    with du r1 h1 Inl p show ?thesis
      by (auto simp add: derive_parameters_steps derived_unset_def)
  next
    case r2: (Inr h2)
    then obtain m where h2: "h2 = h1\<lparr>nstepsDDS := Some m\<rparr>"
      and p2: "stopFreq h1 \<noteq> None" "rampUpStep h1 \<noteq> None"
      using set_nstepsDDS_Inr by blast
    from p2 h1 have present2: "stopFreq h \<noteq> None" "rampUpStep h \<noteq> None"
      by simp_all
    show ?thesis
    proof (cases "set_chirpLength h2")
      case (Inl p)
      obtain e s where p: "p = (e, s)" by (cases p)
      with Inl have "s = h2" using set_chirpLength_Inl by blast
      with du r1 r2 h1 h2 present2 Inl p show ?thesis
        by (auto simp add: derive_parameters_steps derived_unset_def)
    next
      case r3: (Inr h3)
      then obtain c where h3: "h3 = h2\<lparr>chirpLength := Some (NInt c)\<rparr>"
        and p3: "tstepUp h2 \<noteq> None"
        using set_chirpLength_Inr by blast
      from p3 h2 h1 have present3: "tstepUp h \<noteq> None"
        by simp
      from miss present2 present3 have nd: "noDwellHigh h = None"
        by blast
      have npp3: "nchirpsPerPeriod h3 = None" and nd3: "noDwellHigh h3 = None"
        using du nd h1 h2 h3 by (simp_all add: derived_unset_def)
      show ?thesis
      proof (cases "set_nchirpSamples h3")
        case (Inl p)
        obtain e s where p: "p = (e, s)" by (cases p)
        with Inl have "s = h3" using set_nchirpSamples_Inl by blast
        with npp3 r1 r2 r3 present2 present3 Inl p show ?thesis
          by (auto simp add: derive_parameters_steps)
      next
        case r4: (Inr h4)
        then obtain k where h4: "h4 = h3\<lparr>nchirpSamples := Some k\<rparr>"
          using set_nchirpSamples_Inr by blast
        show ?thesis
        proof (cases "clamp_chirpLength h4")
          case (Inl p)
          obtain e s where p: "p = (e, s)" by (cases p)
          with Inl have "s = h4" using clamp_chirpLength_Inl by blast
          with npp3 h4 r1 r2 r3 r4 present2 present3 Inl p show ?thesis
            by (auto simp add: derive_parameters_steps)
        next
          case r5: (Inr h5)
          then have h5: "nchirpsPerPeriod h5 = None \<and> noDwellHigh h5 = None"
            using clamp_chirpLength_Inr [OF r5] npp3 nd3 h4 by auto
          show ?thesis
          proof (cases "set_K h5")
            case (Inl p)
            obtain e s where p: "p = (e, s)" by (cases p)
            with Inl have "s = h5" using set_K_Inl by blast
            with h5 r1 r2 r3 r4 r5 present2 present3 Inl p show ?thesis
              by (auto simp add: derive_parameters_steps)
          next
            case r6: (Inr h6)
            then have h6: "nchirpsPerPeriod h6 = None \<and> noDwellHigh h6 = None"
              using set_K_Inr [OF r6] h5 by auto
            show ?thesis
            proof (cases "set_rampDir h6")
              case (Inl p)
              obtain e s where p: "p = (e, s)" by (cases p)
              with Inl have "s = h6" using set_rampDir_Inl by blast
              with h6 r1 r2 r3 r4 r5 r6 present2 present3 Inl p show ?thesis
                by (auto simp add: derive_parameters_steps)
            next
              case r7: (Inr h7)
              then have h7: "nchirpsPerPeriod h7 = None \<and> noDwellHigh h7 = None"
                using set_rampDir_Inr [OF r7] h6 by auto
              then have "set_upDown h7 = Inl (AttributeError ''noDwellHigh'', h7)"
                using set_upDown_unset by blast
              with h7 r1 r2 r3 r4 r5 r6 r7 present2 present3 show ?thesis
                by (auto simp add: derive_parameters_steps)
            qed
          qed
        qed
      qed
    qed
  qed
qed

lemma init_header_unset:
  "derived_unset (init_header hdr)" "noDwellHigh (init_header hdr) = None"
  "stopFreq (init_header hdr) = None" "rampUpStep (init_header hdr) = None"
  "tstepUp (init_header hdr) = None" "header (init_header hdr) = Some hdr"
  by (simp_all add: init_header_def derived_unset_def)

lemma no_regs_in_hdr:
  "\<not> py_in ''Reg01'' hdr_no_regs" "\<not> py_in ''Reg0B'' hdr_no_regs"
  "\<not> py_in ''Reg0C'' hdr_no_regs" "\<not> py_in ''Reg0D'' hdr_no_regs"
  by code_simp+

text \<open>
  C5, as the code has it. On a freshly built header object whose text lacks one of
  \<open>Reg01\<close>, \<open>Reg0B\<close>, \<open>Reg0C\<close>, \<open>Reg0D\<close>, \<open>update_parameters\<close> raises and returns no
  parameters, and sweeps-per-period is never assigned. If \<open>Reg0B\<close> or \<open>Reg0C\<close> is the
  absent one, none of the step count, chirp length, chirp sample count, chirp gradient
  and ramp direction has been assigned when it raises; if \<open>Reg0D\<close> is, none of the last
  four has. (With only \<open>Reg01\<close> absent the ramp direction may already have been assigned
  when it raises, as on the header of the counterexample below; an earlier error of the
  run leaves it unassigned.)
\<close>

theorem missing_register_fails:
  assumes miss: "\<not> py_in ''Reg01'' hdr \<or> \<not> py_in ''Reg0B'' hdr \<or> \<not> py_in ''Reg0C'' hdr
                 \<or> \<not> py_in ''Reg0D'' hdr"
  shows "\<exists>e h'. update_parameters (init_header hdr) = Inl (e, h') \<and> nchirpsPerPeriod h' = None
      \<and> (\<not> py_in ''Reg0B'' hdr \<or> \<not> py_in ''Reg0C'' hdr \<longrightarrow>
           nstepsDDS h' = None \<and> chirpLength h' = None \<and> nchirpSamples h' = None \<and> K h' = None
           \<and> rampDir h' = None)
      \<and> (\<not> py_in ''Reg0D'' hdr \<longrightarrow>
           chirpLength h' = None \<and> nchirpSamples h' = None \<and> K h' = None \<and> rampDir h' = None)"
proof -
  define r where "r = reg_loop hdr (finditer_starts ''Reg0'' hdr)
                        (finditer_starts (''='' @ dquote) hdr) (init_header hdr)"
  have upd: "update_parameters (init_header hdr) = and_then r (derive_parameters hdr)"
    by (simp add: update_parameters_def on_ok_def get_attr_def init_header_unset r_def)
  have du: "derived_unset (outcome_state r)"
    unfolding r_def using reg_loop_keeps [of derived_unset hdr] reg_case_derived init_header_unset(1)
    by simp
  have k1: "\<not> py_in ''Reg01'' hdr \<Longrightarrow> noDwellHigh (outcome_state r) = None"
    unfolding r_def using reg_loop_keeps [of noDwellHigh hdr] reg_case_noDwellHigh init_header_unset(2)
    by simp
  have k2: "\<not> py_in ''Reg0B'' hdr \<Longrightarrow> stopFreq (outcome_state r) = None"
    unfolding r_def using reg_loop_keeps [of stopFreq hdr] reg_case_stopFreq init_header_unset(3)
    by simp
  have k3: "\<not> py_in ''Reg0C'' hdr \<Longrightarrow> rampUpStep (outcome_state r) = None"
    unfolding r_def using reg_loop_keeps [of rampUpStep hdr] reg_case_rampUpStep init_header_unset(4)
    by simp
  have k4: "\<not> py_in ''Reg0D'' hdr \<Longrightarrow> tstepUp (outcome_state r) = None"
    unfolding r_def using reg_loop_keeps [of tstepUp hdr] reg_case_tstepUp init_header_unset(5)
    by simp
  show ?thesis
  proof (cases r)
    case (Inl p)
    obtain e s where p: "p = (e, s)" by (cases p)
    with Inl du have "derived_unset s"
      by (simp add: outcome_state_simps)
    with Inl p upd show ?thesis
      by (simp add: and_then_def derived_unset_def)
  next
    case (Inr h1)
    with du k1 k2 k3 k4 have d1: "derived_unset h1"
      and m1: "\<not> py_in ''Reg01'' hdr \<Longrightarrow> noDwellHigh h1 = None"
              "\<not> py_in ''Reg0B'' hdr \<Longrightarrow> stopFreq h1 = None"
              "\<not> py_in ''Reg0C'' hdr \<Longrightarrow> rampUpStep h1 = None"
              "\<not> py_in ''Reg0D'' hdr \<Longrightarrow> tstepUp h1 = None"
      by (simp_all add: outcome_state_simps)
    from miss m1 have "noDwellHigh h1 = None \<or> stopFreq h1 = None \<or> rampUpStep h1 = None
                       \<or> tstepUp h1 = None"
      by auto
    from derive_fails [OF d1 this, of hdr] show ?thesis
    proof (elim exE conjE)
      fix e s
      assume f: "derive_parameters hdr h1 = Inl (e, s)" and n: "nchirpsPerPeriod s = None"
        and a: "stopFreq h1 = None \<or> rampUpStep h1 = None \<longrightarrow>
           nstepsDDS s = None \<and> chirpLength s = None \<and> nchirpSamples s = None \<and> K s = None
           \<and> rampDir s = None"
        and b: "tstepUp h1 = None \<longrightarrow>
           chirpLength s = None \<and> nchirpSamples s = None \<and> K s = None \<and> rampDir s = None"
      from Inr f upd have u: "update_parameters (init_header hdr) = Inl (e, s)"
        by (simp add: and_then_def)
      from a m1 have a': "\<not> py_in ''Reg0B'' hdr \<or> \<not> py_in ''Reg0C'' hdr \<longrightarrow>
           nstepsDDS s = None \<and> chirpLength s = None \<and> nchirpSamples s = None \<and> K s = None
           \<and> rampDir s = None"
        by auto
      from b m1 have b': "\<not> py_in ''Reg0D'' hdr \<longrightarrow>
           chirpLength s = None \<and> nchirpSamples s = None \<and> K s = None \<and> rampDir s = None"
        by auto
      show ?thesis
        apply (rule exI [of _ e], rule exI [of _ s])
        using u n a' b' by simp
    qed
  qed
qed

theorem missing_register_fails_witness:
  "(\<exists>e h'. update_parameters (init_header hdr_no_regs) = Inl (e, h')
        \<and> nstepsDDS h' = None \<and> chirpLength h' = None \<and> nchirpSamples h' = None
        \<and> K h' = None \<and> rampDir h' = None \<and> nchirpsPerPeriod h' = None)
   \<and> (\<exists>e h'. update_parameters (init_header hdr_no_reg01) = Inl (e, h')
        \<and> nchirpsPerPeriod h' = None)"
  using missing_register_fails [of hdr_no_regs] missing_register_fails [of hdr_no_reg01]
    no_regs_in_hdr no_reg01_in_hdr
  by blast

text \<open>
  C5 as stated fails on this header, where \<open>Reg01\<close> alone is absent: the run raises
  AttributeError on \<open>noDwellHigh\<close> only after the ramp direction, which depends on the
  no-dwell flags of that register, has been assigned (here \<open>down\<close>).
\<close>

theorem missing_reg01_rampDir_assigned:
  "\<not> py_in ''Reg01'' hdr_no_reg01
   \<and> (\<exists>s. update_parameters (init_header hdr_no_reg01) = Inl (AttributeError ''noDwellHigh'', s)
          \<and> rampDir s = Some ''down'')"
  using run_hdr_no_reg01 no_reg01_in_hdr
  by (cases "update_parameters (init_header hdr_no_reg01)") (auto simp: observed_def)

subsection \<open>The chirp length and the sample budget\<close>















subsection \<open>Reading fields and records of a Gecko file\<close>

lemma rd_item_append: "length a = n \<Longrightarrow> rd_item n (a @ rest) = Inr (a, rest)"
  by (simp add: rd_item_def)

lemma rd_bind_Inr: "r bs = Inr (x, rest) \<Longrightarrow> rd_bind r f bs = f x rest"
  by (simp add: rd_bind_def)

lemma rd_bind_Inl: "r bs = Inl e \<Longrightarrow> rd_bind r f bs = Inl e"
  by (simp add: rd_bind_def)

lemma rd_map_Inr: "r bs = Inr (x, rest) \<Longrightarrow> rd_map f r bs = Inr (f x, rest)"
  by (simp add: rd_map_def)

lemma rd_u8_cons: "rd_u8 (b # rest) = Inr (uint b, rest)"
  by (simp add: rd_u8_def rd_map_def rd_item_def)

lemma rd_u8_Nil: "rd_u8 [] = Inl IndexError"
  by (simp add: rd_u8_def rd_map_def rd_item_def)

lemma rd_i16_append: "length a = 2 \<Longrightarrow> rd_i16 (a @ rest) = Inr (signed 16 (le_int a), rest)"
  by (simp add: rd_i16_def rd_map_def rd_item_append)

lemma rd_i32_append: "length a = 4 \<Longrightarrow> rd_i32 (a @ rest) = Inr (signed 32 (le_int a), rest)"
  by (simp add: rd_i32_def rd_map_def rd_item_append)

lemma rd_f32_append: "length a = 4 \<Longrightarrow> rd_f32 (a @ rest) = Inr (f32_val (le_int a), rest)"
  by (simp add: rd_f32_def rd_map_def rd_item_append)

lemma rd_f64_append: "length a = 8 \<Longrightarrow> rd_f64 (a @ rest) = Inr (f64_val (le_int a), rest)"
  by (simp add: rd_f64_def rd_map_def rd_item_append)

lemma rd_day_append:
  "length a = 8 \<Longrightarrow> rd_day (a @ rest) = Inr (fadd (f64_val (le_int a)) epoch_ordinal, rest)"
  by (simp add: rd_day_def rd_map_def rd_f64_append)

lemma rd_skip_append: "length a = n \<Longrightarrow> rd_skip n (a @ rest) = Inr ((), rest)"
  by (simp add: rd_skip_def)

lemmas rd_appends = rd_i16_append rd_i32_append rd_f32_append rd_f64_append rd_day_append
  rd_skip_append

lemma rd_trace_fields_enc:
  assumes "wf_fields V r"
  shows "rd_trace_fields V (enc_fields V r @ rest) = Inr (rec_fields V r, rest)"
  using assms
  by (simp add: wf_fields_def rd_trace_fields_def enc_fields_def rec_fields_def
        rd_bind_def rd_return_def rd_appends)

lemma length_int16_items: "length (int16_items p) = length p div 2"
  by (induction p rule: int16_items.induct) simp_all

lemma rd_samples_append:
  "length p = 2 * n \<Longrightarrow> rd_samples n (p @ rest) = Inr (int16_items p, rest)"
  by (simp add: rd_samples_def)

lemma append_scalars_shape: "data_shape (append_scalars f c) = data_shape c"
  by (simp add: append_scalars_def)

lemma push_row_shape: "snd (data_shape (push_row d c)) = snd (data_shape c)"
  by (simp add: push_row_def)

lemma rec_cols_shape: "snd (data_shape (rec_cols V ch nn r c)) = snd (data_shape c)"
  by (simp add: rec_cols_def Let_def append_scalars_shape push_row_shape)

lemma append_data_bound:
  "newdata st = Some d \<Longrightarrow> length d = snd (data_shape (cols st)) \<Longrightarrow>
     append_data st = Inr (st\<lparr>cols := push_row d (cols st)\<rparr>)"
  by (simp add: append_data_def push_row_def)

lemma read_record_data:
  assumes "data_record V nsamp nn r" and "snd (data_shape (cols st)) = nsamp"
  shows "read_record V nsamp ch nn st (enc_record V r @ rest) =
           Inr ((Continue, \<lparr> cols = rec_cols V ch nn r (cols st),
                             newdata = Some (rec_samples r) \<rparr>), rest)"
proof -
  from assms(1) have wf: "wf_fields V r" and ty: "r_type r = 0"
    and cn: "uint (r_chan r) = int nn + 1" and len: "length (r_payload r) = 2 * nsamp"
    by (simp_all add: data_record_def)
  have ls: "length (rec_samples r) = nsamp"
    using len by (simp add: rec_samples_def length_int16_items)
  have head: "rd_bind rd_header_type f (enc_record V r @ rest) =
                f (Some 0) (r_chan r # enc_fields V r @ r_payload r @ rest)" for f
    by (simp add: rd_bind_def rd_header_type_def enc_record_def enc_head_def ty)
  show ?thesis
    unfolding read_record_def head
    by (simp add: rd_bind_def rd_u8_cons cn rd_trace_fields_enc [OF wf] rd_map_def
          rd_samples_append [OF len] rd_return_def rec_cols_def Let_def
          append_data_bound append_scalars_shape ls assms(2) rec_samples_def [symmetric])
qed

subsection \<open>The channel loop and the trace loop on well-formed traces\<close>

lemma records_effect_shape:
  "snd (data_shape (cols (records_effect V ch nn rs st))) = snd (data_shape (cols st))"
  by (induction rs arbitrary: nn st) (simp_all add: rec_cols_shape)

lemma chan_loop_records:
  assumes "data_records V nsamp nn rs" and "snd (data_shape (cols st)) = nsamp"
  shows "chan_loop V nsamp ch nn (length rs + k) st (enc_trace V rs @ rest) =
           chan_loop V nsamp ch (nn + length rs) k (records_effect V ch nn rs st) rest"
  using assms
proof (induction rs arbitrary: nn st)
  case Nil
  then show ?case by (simp add: enc_trace_def)
next
  case (Cons r rs)
  from Cons.prems have r: "data_record V nsamp nn r" and rs: "data_records V nsamp (Suc nn) rs"
    by simp_all
  let ?st1 = "\<lparr> cols = rec_cols V ch nn r (cols st), newdata = Some (rec_samples r) \<rparr>"
  have sh: "snd (data_shape (cols ?st1)) = nsamp"
    using Cons.prems(2) by (simp add: rec_cols_shape)
  have "enc_trace V (r # rs) @ rest = enc_record V r @ (enc_trace V rs @ rest)"
    by (simp add: enc_trace_def)
  then show ?case
    using read_record_data [OF r Cons.prems(2), of ch "enc_trace V rs @ rest"]
      Cons.IH [OF rs sh]
    by simp
qed

lemma enc_trace_nonempty: "rs \<noteq> [] \<Longrightarrow> enc_trace V rs \<noteq> []"
  by (cases rs) (simp_all add: enc_trace_def enc_record_def enc_head_def)

lemma trace_pass_trace:
  assumes "wf_trace (Version h) (nat (snum_gecko h)) (nChannels h) rs"
    and "snd (data_shape (cols st)) = nat (snum_gecko h)"
  shows "trace_pass h ch (Some st) (enc_trace (Version h) rs @ rest) =
           Inr (records_effect (Version h) ch 0 rs st, rest)"
proof -
  from assms(1) have len: "length rs = nChannels h"
    and dr: "data_records (Version h) (nat (snum_gecko h)) 0 rs"
    by (simp_all add: wf_trace_def)
  from chan_loop_records [OF dr assms(2), of ch 0 rest] len show ?thesis
    by (simp add: trace_pass_def first_pass_def)
qed

lemma trace_loop_traces:
  assumes "\<forall>rs\<in>set ts. wf_trace (Version h) (nat (snum_gecko h)) (nChannels h) rs"
    and "0 < nChannels h"
    and "snd (data_shape (cols st)) = nat (snum_gecko h)"
  shows "trace_loop h ch (Some st) (concat (map (enc_trace (Version h)) ts) @ rest) =
           trace_loop h ch (Some (traces_effect (Version h) ch st ts)) rest"
  using assms
proof (induction ts arbitrary: st)
  case Nil
  show ?case by (simp add: traces_effect_def)
next
  case (Cons rs ts)
  from Cons.prems have wf: "wf_trace (Version h) (nat (snum_gecko h)) (nChannels h) rs"
    and wfs: "\<forall>rs\<in>set ts. wf_trace (Version h) (nat (snum_gecko h)) (nChannels h) rs"
    by simp_all
  from wf Cons.prems(2) have ne: "rs \<noteq> []"
    by (auto simp: wf_trace_def)
  let ?tail = "concat (map (enc_trace (Version h)) ts) @ rest"
  let ?st1 = "records_effect (Version h) ch 0 rs st"
  have sh: "snd (data_shape (cols ?st1)) = nat (snum_gecko h)"
    using Cons.prems(3) by (simp add: records_effect_shape)
  have bs: "concat (map (enc_trace (Version h)) (rs # ts)) @ rest = enc_trace (Version h) rs @ ?tail"
    by simp
  have nonempty: "enc_trace (Version h) rs @ ?tail \<noteq> []"
    using enc_trace_nonempty [OF ne] by simp
  have "trace_loop h ch (Some st) (enc_trace (Version h) rs @ ?tail) = trace_loop h ch (Some ?st1) ?tail"
    by (subst trace_loop.simps)
       (simp add: nonempty trace_pass_trace [OF wf Cons.prems(3)] del: append_is_Nil_conv)
  also have "\<dots> = trace_loop h ch (Some (traces_effect (Version h) ch ?st1 ts)) rest"
    using Cons.IH [OF wfs Cons.prems(2) sh] .
  finally show ?case
    unfolding bs by (simp add: traces_effect_def)
qed

lemma trace_loop_unfold:
  "bs \<noteq> [] \<Longrightarrow> trace_loop h ch sto bs =
     (case trace_pass h ch sto bs of
        Inl e \<Rightarrow> Some (Inl e)
      | Inr (st, rest) \<Rightarrow> trace_loop h ch (Some st) rest)"
  by (subst trace_loop.simps) simp

lemma trace_loop_first:
  assumes "bs \<noteq> []" and "0 \<le> snum_gecko h"
  shows "trace_loop h ch None bs =
           trace_loop h ch (Some \<lparr> cols = empty_cols (nat (snum_gecko h)), newdata = None \<rparr>) bs"
proof -
  have "trace_pass h ch None bs =
          trace_pass h ch (Some \<lparr> cols = empty_cols (nat (snum_gecko h)), newdata = None \<rparr>) bs"
    using assms(2) by (simp add: trace_pass_def first_pass_def)
  then show ?thesis
    by (simp add: trace_loop_unfold [OF assms(1)])
qed

lemma trace_loop_end: "trace_loop h ch sto [] = Some (Inr sto)"
  by (subst trace_loop.simps) simp

lemma records_effect_cols:
  "cols (records_effect V ch nn rs st) =
     (if int nn + 1 \<le> ch \<and> ch \<le> int nn + int (length rs)
      then push_row (rec_samples (rs ! (nat ch - 1 - nn))) else id)
       ((if nn = 0 \<and> rs \<noteq> [] then append_scalars (rec_fields V (hd rs)) else id) (cols st))"
proof (induction rs arbitrary: nn st)
  case Nil
  show ?case by auto
next
  case (Cons r rs)
  show ?case
  proof (cases "int nn + 1 = ch")
    case True
    then have "nat ch - 1 - nn = 0" by auto
    with True show ?thesis
      by (simp add: Cons.IH rec_cols_def)
  next
    case False
    then have "int nn + 1 \<le> ch \<Longrightarrow> nat ch - 1 - nn = Suc (nat ch - 1 - Suc nn)"
      by auto
    with False show ?thesis
      by (auto simp add: Cons.IH rec_cols_def)
  qed
qed

lemma records_effect_trace:
  assumes "length rs = n" and "1 \<le> ch" and "ch \<le> int n"
  shows "cols (records_effect V ch 0 rs st) = trace_step V ch (cols st) rs"
proof -
  from assms have "rs \<noteq> []" by auto
  with assms show ?thesis
    by (simp add: records_effect_cols trace_step_def)
qed

lemma traces_effect_cols:
  assumes "\<forall>rs\<in>set ts. length rs = n" and "1 \<le> ch" and "ch \<le> int n"
  shows "cols (traces_effect V ch st ts) = traces_cols V ch (cols st) ts"
  using assms(1)
proof (induction ts arbitrary: st)
  case Nil
  show ?case by (simp add: traces_effect_def traces_cols_def)
next
  case (Cons rs ts)
  then have l: "length rs = n" and ls: "\<forall>rs\<in>set ts. length rs = n"
    by simp_all
  have "cols (traces_effect V ch (records_effect V ch 0 rs st) ts) =
          traces_cols V ch (cols (records_effect V ch 0 rs st)) ts"
    using Cons.IH [OF ls] .
  then show ?case
    by (simp add: traces_effect_def traces_cols_def records_effect_trace [OF l assms(2,3)])
qed

lemma traces_cols_Cons:
  "traces_cols V ch c (rs # ts) = traces_cols V ch (trace_step V ch c rs) ts"
  by (simp add: traces_cols_def)

lemma traces_cols_columns:
  "trace_num (traces_cols V ch c ts) = trace_num c @ map (\<lambda>rs. f_trace_num (rec_fields V (hd rs))) ts"
  "decday (traces_cols V ch c ts) = decday c @ map (\<lambda>rs. f_decday (rec_fields V (hd rs))) ts"
  "trace_int (traces_cols V ch c ts) = trace_int c @ map (\<lambda>rs. f_trace_int (rec_fields V (hd rs))) ts"
  "lat (traces_cols V ch c ts) = lat c @ map (\<lambda>rs. f_lat (rec_fields V (hd rs))) ts"
  "long (traces_cols V ch c ts) = long c @ map (\<lambda>rs. f_long (rec_fields V (hd rs))) ts"
  "elev (traces_cols V ch c ts) = elev c @ map (\<lambda>rs. f_elev (rec_fields V (hd rs))) ts"
  "GPSResolution (traces_cols V ch c ts) =
     GPSResolution c @ map (\<lambda>rs. f_GPSResolution (rec_fields V (hd rs))) ts"
  "trig_level (traces_cols V ch c ts) =
     trig_level c @ map (\<lambda>rs. Fin (of_int (f_trig_level (rec_fields V (hd rs))))) ts"
  "data (traces_cols V ch c ts) = data c @ map (\<lambda>rs. rec_samples (rs ! (nat ch - 1))) ts"
  "data_shape (traces_cols V ch c ts) = (fst (data_shape c) + length ts, snd (data_shape c))"
  by (induction ts arbitrary: c)
     (simp_all add: traces_cols_Cons trace_step_def push_row_def append_scalars_def,
      simp_all add: traces_cols_def)

lemma trace_loop_stream:
  assumes wf: "\<forall>rs\<in>set ts. wf_trace (Version h) (nat (snum_gecko h)) (nChannels h) rs"
    and ne: "ts \<noteq> []" and sn: "0 \<le> snum_gecko h" and ch1: "1 \<le> ch"
    and ch2: "ch \<le> int (nChannels h)"
  shows "\<exists>st. trace_loop h ch None (concat (map (enc_trace (Version h)) ts)) = Some (Inr (Some st))
           \<and> cols st = traces_cols (Version h) ch (empty_cols (nat (snum_gecko h))) ts"
proof -
  let ?V = "Version h"
  let ?init = "\<lparr> cols = empty_cols (nat (snum_gecko h)), newdata = None \<rparr>"
  let ?bs = "concat (map (enc_trace ?V) ts)"
  from ch1 ch2 have n0: "0 < nChannels h" by auto
  obtain rs ts' where ts: "ts = rs # ts'"
    using ne by (cases ts) auto
  with wf n0 have "rs \<noteq> []"
    by (auto simp: wf_trace_def)
  then have bs_ne: "?bs \<noteq> []"
    using enc_trace_nonempty [of rs ?V] ts by simp
  have sh: "snd (data_shape (cols ?init)) = nat (snum_gecko h)"
    by (simp add: empty_cols_def)
  have "trace_loop h ch None ?bs = trace_loop h ch (Some ?init) (?bs @ [])"
    using trace_loop_first [OF bs_ne sn] by simp
  also have "\<dots> = trace_loop h ch (Some (traces_effect ?V ch ?init ts)) []"
    using trace_loop_traces [OF wf n0 sh] .
  also have "\<dots> = Some (Inr (Some (traces_effect ?V ch ?init ts)))"
    by (rule trace_loop_end)
  finally have run: "trace_loop h ch None ?bs = Some (Inr (Some (traces_effect ?V ch ?init ts)))" .
  from wf have "\<forall>rs\<in>set ts. length rs = nChannels h"
    by (simp add: wf_trace_def)
  from traces_effect_cols [OF this ch1 ch2, of ?V ?init]
  have "cols (traces_effect ?V ch ?init ts) = traces_cols ?V ch (empty_cols (nat (snum_gecko h))) ts"
    by simp
  with run show ?thesis by blast
qed


lemma gecko_init_traces:
  assumes hd: "gecko_file_header bs0 = Inr (h, bs1)"
    and chs: "channel_headers (Version h) 0 (nChannels h) bs1
                = Inr (chs, concat (map (enc_trace (Version h)) ts))"
    and wf: "\<forall>rs\<in>set ts. wf_trace (Version h) (nat (snum_gecko h)) (nChannels h) rs"
    and ne: "ts \<noteq> []" and sn: "0 \<le> snum_gecko h" and ch1: "1 \<le> ch"
    and ch2: "ch \<le> int (nChannels h)"
  shows "\<exists>st. gecko_init ch bs0 = Some (finalize h chs ch (Some st))
           \<and> cols st = traces_cols (Version h) ch (empty_cols (nat (snum_gecko h))) ts"
proof -
  from trace_loop_stream [OF wf ne sn ch1 ch2] obtain st
    where run: "trace_loop h ch None (concat (map (enc_trace (Version h)) ts)) = Some (Inr (Some st))"
      and c: "cols st = traces_cols (Version h) ch (empty_cols (nat (snum_gecko h))) ts"
    by blast
  have "gecko_init ch bs0 = Some (finalize h chs ch (Some st))"
    by (simp add: gecko_init_def hd chs run)
  with c show ?thesis by blast
qed

lemma finalize_columns:
  assumes "finalize h chs ch (Some st) = Inr g"
  shows "tnum g = fst (data_shape (cols st))"
    "data_shape (final_cols g) = (snd (data_shape (cols st)), fst (data_shape (cols st)))"
    "data (final_cols g) = transpose_rows (snd (data_shape (cols st))) (data (cols st))"
    "trig_level (final_cols g) = replicate (fst (data_shape (cols st))) (Fin 0)"
    "trace_num (final_cols g) = trace_num (cols st)"
    "decday (final_cols g) = decday (cols st)"
    "trace_int (final_cols g) = trace_int (cols st)"
    "lat (final_cols g) = lat (cols st)"
    "long (final_cols g) = long (cols st)"
    "elev (final_cols g) = elev (cols st)"
    "GPSResolution (final_cols g) = GPSResolution (cols st)"
  using assms by (auto simp: finalize_def Let_def)

lemma finalize_Some: "\<exists>g. finalize h chs ch (Some st) = Inr g"
  by (simp add: finalize_def Let_def)

subsection \<open>The example files\<close>

lemma length_le_bytes: "length (le_bytes n v) = n"
  by (induction n arbitrary: v) simp_all

lemma le_int_le_bytes: "le_int (le_bytes n v) = v mod 256 ^ n"
proof (induction n arbitrary: v)
  case 0
  show ?case by simp
next
  case (Suc n)
  have "uint (word_of_int (v mod 256) :: byte) = v mod 256"
    by (simp add: uint_word_of_int take_bit_eq_mod)
  moreover have "v mod (256 * 256 ^ n) = 256 * (v div 256 mod 256 ^ n) + v mod 256"
    by (rule zmod_zmult2_eq) simp
  ultimately show ?case
    by (simp add: Suc.IH)
qed

lemma le_bytes_1: "le_bytes (Suc 0) v = [word_of_int (v mod 256)]"
  by simp

lemma version_380:
  "\<not> flt (version_of 380) v3_2" "\<not> flt (version_of 380) v3_21"
  "\<not> flt (version_of 380) v3_6" "\<not> flt (version_of 380) v3_8"
  by code_simp+

lemma signed_nonneg: "0 \<le> v \<Longrightarrow> v < 2 ^ (bits - 1) \<Longrightarrow> signed bits v = v"
  by (simp add: signed_def)

lemma rd_i8_cons: "rd_i8 (b # rest) = Inr (signed 8 (uint b), rest)"
  by (simp add: rd_i8_def rd_map_def rd_item_def)

lemma example_file_header_parses:
  assumes "0 \<le> nch" "nch < 256" "0 \<le> pre" "0 \<le> post" "pre + post < 32768"
  shows "\<exists>h. gecko_file_header (example_file_header nch pre post @ rest) = Inr (h, rest)
           \<and> Version h = version_of 380 \<and> nChannels h = nat nch \<and> snum_gecko h = pre + post"
proof -
  have u: "uint (word_of_int (nch mod 256) :: byte) = nch"
    using assms by (simp add: uint_word_of_int take_bit_eq_mod)
  have w: "uint (word_of_int 1 :: byte) = 1" "uint (word_of_int 0 :: byte) = 0"
    by simp_all
  have pp: "signed 16 (pre mod 65536) = pre" "signed 16 (post mod 65536) = post"
    "signed 16 ((pre + post) mod 65536) = pre + post"
    using assms by (simp_all add: signed_def)
  show ?thesis
    unfolding gecko_file_header_def example_file_header_def
    by (simp add: rd_bind_def rd_appends length_le_bytes le_int_le_bytes le_bytes_1
          rd_u8_cons rd_i8_cons rd_map_def rd_return_def Let_def version_380 u w pp
          signed_nonneg)
qed

lemma example_channel_header_parses:
  assumes "\<not> flt V v3_6" "0 \<le> k" "k < 256"
  shows "channel_header V nn (example_channel_header k @ rest) =
           (if k = int nn + 1 then Inr ((500, 0, 0), rest) else Inl corrupt_channel)"
proof -
  have u: "uint (word_of_int (k mod 256) :: byte) = k"
    using assms by (simp add: uint_word_of_int take_bit_eq_mod)
  show ?thesis
    unfolding channel_header_def example_channel_header_def
    by (simp add: rd_bind_def rd_appends length_le_bytes le_int_le_bytes le_bytes_1
          rd_u8_cons rd_map_def rd_return_def assms(1) u signed_nonneg)
qed

lemma length_samples_bytes: "length (samples_bytes xs) = 2 * length xs"
  by (induction xs) (simp_all add: samples_bytes_def length_le_bytes)

lemma example_record_wf: "wf_fields (version_of 380) (example_record ty k tn lev p)"
  by (simp add: wf_fields_def example_record_def version_380 length_le_bytes)

lemma uint_byte: "0 \<le> k \<Longrightarrow> k < 256 \<Longrightarrow> uint (word_of_int k :: byte) = k"
  by (simp add: uint_word_of_int take_bit_eq_mod)

lemma example_record_simps:
  "r_type (example_record ty k tn lev p) = word_of_int ty"
  "r_chan (example_record ty k tn lev p) = word_of_int k"
  "r_payload (example_record ty k tn lev p) = p"
  by (simp_all add: example_record_def)

lemma example_data_record:
  assumes "k = int nn + 1" "k < 256" "length p = 2 * nsamp"
  shows "data_record (version_of 380) nsamp nn (example_record 0 k tn lev p)"
proof -
  have "uint (word_of_int k :: byte) = k"
    using assms(1,2) by (intro uint_byte) simp_all
  with assms(1) have "uint (r_chan (example_record 0 k tn lev p)) = int nn + 1"
    by (simp only: example_record_simps)
  then show ?thesis
    using assms(3) by (simp add: data_record_def example_record_wf example_record_simps)
qed

lemma one_channel_traces:
  "\<forall>rs\<in>set [[example_record 0 1 1 5 (samples_bytes [10, - 20])],
               [example_record 0 1 2 5 (samples_bytes [30, 40])]].
     wf_trace (version_of 380) 2 1 rs"
  using example_data_record [of 1 0 _ 2]
  by (simp add: wf_trace_def length_samples_bytes)

lemma example_values:
  "rec_samples (example_record 0 1 1 5 (samples_bytes [10, - 20])) = [10, - 20]"
  "rec_samples (example_record 0 1 2 5 (samples_bytes [30, 40])) = [30, 40]"
  "signed 32 (le_int (r_trace_num (example_record 0 1 1 5 (samples_bytes [10, - 20])))) = 1"
  "signed 32 (le_int (r_trace_num (example_record 0 1 2 5 (samples_bytes [30, 40])))) = 2"
  "signed 16 (le_int (r_trig_level (example_record 0 1 1 5 (samples_bytes [10, - 20])))) = 5"
  "signed 16 (le_int (r_trig_level (example_record 0 1 2 5 (samples_bytes [30, 40])))) = 5"
  "f64_val (le_int (r_decday (example_record 0 1 1 5 (samples_bytes [10, - 20])))) = Fin 1"
  "f64_val (le_int (r_decday (example_record 0 1 2 5 (samples_bytes [30, 40])))) = Fin 1"
  "fadd (Fin 1) epoch_ordinal = Fin 719164"
  by code_simp+

lemma one_channel_file_parts:
  "\<exists>h chs. gecko_file_header one_channel_file
            = Inr (h, example_channel_header 1
                 @ concat (map (enc_trace (version_of 380))
                     [[example_record 0 1 1 5 (samples_bytes [10, - 20])],
                      [example_record 0 1 2 5 (samples_bytes [30, 40])]]))
     \<and> Version h = version_of 380 \<and> nChannels h = 1 \<and> snum_gecko h = 2
     \<and> channel_headers (version_of 380) 0 1
          (example_channel_header 1
             @ concat (map (enc_trace (version_of 380))
                 [[example_record 0 1 1 5 (samples_bytes [10, - 20])],
                  [example_record 0 1 2 5 (samples_bytes [30, 40])]]))
        = Inr (chs, concat (map (enc_trace (version_of 380))
                 [[example_record 0 1 1 5 (samples_bytes [10, - 20])],
                  [example_record 0 1 2 5 (samples_bytes [30, 40])]]))"
proof -
  let ?ts = "[[example_record 0 1 1 5 (samples_bytes [10, - 20])],
              [example_record 0 1 2 5 (samples_bytes [30, 40])]]"
  let ?bs = "concat (map (enc_trace (version_of 380)) ?ts)"
  from example_file_header_parses [of 1 0 2 "example_channel_header 1 @ ?bs"]
  obtain h where h: "gecko_file_header (example_file_header 1 0 2 @ example_channel_header 1 @ ?bs)
                       = Inr (h, example_channel_header 1 @ ?bs)"
    and v: "Version h = version_of 380" "nChannels h = 1" "snum_gecko h = 2"
    by auto
  have f: "one_channel_file = example_file_header 1 0 2 @ example_channel_header 1 @ ?bs"
    by (simp add: one_channel_file_def)
  have c: "channel_headers (version_of 380) 0 1 (example_channel_header 1 @ ?bs)
             = Inr ([(500, 0, 0)], ?bs)"
    using example_channel_header_parses [of "version_of 380" 1 0 ?bs]
    by (simp add: version_380 rd_map_def)
  from h v c f show ?thesis
    by auto
qed

subsection \<open>The round trip\<close>

text \<open>
  C1, as the code has it. A file whose header and channel headers are read and are
  followed by \<open>M \<ge> 1\<close> traces, each one data record a channel with \<open>snum \<ge> 0\<close>
  samples, is decoded for a channel \<open>ch\<close> of the file into \<open>tnum = M\<close>, \<open>data\<close> of shape
  \<open>(snum, M)\<close> holding the samples of channel \<open>ch\<close>, and the trace number, trace
  interval, latitude, longitude, elevation and GPS accuracy injected in channel 1 of
  each trace. The acquisition day is the injected day number plus the ordinal of
  1 January 1970, and the trigger level is zero for every trace.
\<close>

theorem gecko_round_trip:
  assumes hd: "gecko_file_header bs0 = Inr (h, bs1)"
    and chs: "channel_headers (Version h) 0 (nChannels h) bs1
                = Inr (chs, concat (map (enc_trace (Version h)) ts))"
    and wf: "\<forall>rs\<in>set ts. wf_trace (Version h) (nat (snum_gecko h)) (nChannels h) rs"
    and ne: "ts \<noteq> []" and sn: "0 \<le> snum_gecko h" and ch1: "1 \<le> ch"
    and ch2: "ch \<le> int (nChannels h)"
  shows "\<exists>g. gecko_init ch bs0 = Some (Inr g)
     \<and> tnum g = length ts
     \<and> data_shape (final_cols g) = (nat (snum_gecko h), length ts)
     \<and> data (final_cols g) =
         transpose_rows (nat (snum_gecko h)) (map (\<lambda>rs. rec_samples (rs ! (nat ch - 1))) ts)
     \<and> trace_num (final_cols g) = map (\<lambda>rs. signed 32 (le_int (r_trace_num (hd rs)))) ts
     \<and> decday (final_cols g) =
         map (\<lambda>rs. fadd (f64_val (le_int (r_decday (hd rs)))) epoch_ordinal) ts
     \<and> trace_int (final_cols g) = map (\<lambda>rs. f32_val (le_int (r_trace_int (hd rs)))) ts
     \<and> lat (final_cols g) = map (\<lambda>rs. f64_val (le_int (r_lat (hd rs)))) ts
     \<and> long (final_cols g) = map (\<lambda>rs. f64_val (le_int (r_long (hd rs)))) ts
     \<and> elev (final_cols g) = map (\<lambda>rs. f32_val (le_int (r_elev (hd rs)))) ts
     \<and> GPSResolution (final_cols g) = map (\<lambda>rs. f32_val (le_int (r_gps (hd rs)))) ts
     \<and> trig_level (final_cols g) = replicate (length ts) (Fin 0)"
proof -
  from gecko_init_traces [OF hd chs wf ne sn ch1 ch2] obtain st
    where init: "gecko_init ch bs0 = Some (finalize h chs ch (Some st))"
      and c: "cols st = traces_cols (Version h) ch (empty_cols (nat (snum_gecko h))) ts"
    by blast
  obtain g where fin: "finalize h chs ch (Some st) = Inr g"
    using finalize_Some by blast
  have sh: "data_shape (cols st) = (length ts, nat (snum_gecko h))"
    by (simp add: c traces_cols_columns empty_cols_def)
  note p = finalize_columns [OF fin]
  show ?thesis
    apply (rule exI [of _ g])
    apply (simp add: init fin p sh)
    apply (simp add: c traces_cols_columns empty_cols_def rec_fields_def)
    done
qed

theorem gecko_round_trip_witness:
  "\<exists>g. gecko_init 1 one_channel_file = Some (Inr g) \<and> tnum g = 2
       \<and> data_shape (final_cols g) = (2, 2)
       \<and> data (final_cols g) = [[10, 30], [- 20, 40]]
       \<and> trace_num (final_cols g) = [1, 2]"
proof -
  let ?ts = "[[example_record 0 1 1 5 (samples_bytes [10, - 20])],
              [example_record 0 1 2 5 (samples_bytes [30, 40])]]"
  from one_channel_file_parts obtain h chs
    where h: "gecko_file_header one_channel_file
                = Inr (h, example_channel_header 1 @ concat (map (enc_trace (version_of 380)) ?ts))"
      and v: "Version h = version_of 380" "nChannels h = 1" "snum_gecko h = 2"
      and c: "channel_headers (version_of 380) 0 1
                (example_channel_header 1 @ concat (map (enc_trace (version_of 380)) ?ts))
              = Inr (chs, concat (map (enc_trace (version_of 380)) ?ts))"
    by blast
  have t: "transpose_rows 2 [[10, - 20], [30, 40]] = [[10, 30], [- 20, 40]]"
    by code_simp
  from gecko_round_trip [of one_channel_file h _ chs ?ts 1] h v c one_channel_traces
  obtain g where "gecko_init 1 one_channel_file = Some (Inr g)" "tnum g = length ?ts"
    "data_shape (final_cols g) = (nat 2, length ?ts)"
    "data (final_cols g) = transpose_rows (nat 2) (map (\<lambda>rs. rec_samples (rs ! (nat 1 - 1))) ?ts)"
    "trace_num (final_cols g) = map (\<lambda>rs. signed 32 (le_int (r_trace_num (hd rs)))) ?ts"
    by auto
  then show ?thesis
    by (simp add: example_values t)
qed

text \<open>
  C1 as stated fails on a file of one channel with two traces, each with the trigger
  level 5 and the day number 1.0: the decoded trigger levels are zero, and the decoded
  days are 719164.
\<close>

theorem one_channel_trig_level_zero:
  "\<exists>g. gecko_init 1 one_channel_file = Some (Inr g)
       \<and> trig_level (final_cols g) = [Fin 0, Fin 0]
       \<and> decday (final_cols g) = [Fin 719164, Fin 719164]
       \<and> map (\<lambda>rs. signed 16 (le_int (r_trig_level (hd rs))))
            [[example_record 0 1 1 5 (samples_bytes [10, - 20])],
             [example_record 0 1 2 5 (samples_bytes [30, 40])]] = [5, 5]
       \<and> map (\<lambda>rs. f64_val (le_int (r_decday (hd rs))))
            [[example_record 0 1 1 5 (samples_bytes [10, - 20])],
             [example_record 0 1 2 5 (samples_bytes [30, 40])]] = [Fin 1, Fin 1]"
proof -
  let ?ts = "[[example_record 0 1 1 5 (samples_bytes [10, - 20])],
              [example_record 0 1 2 5 (samples_bytes [30, 40])]]"
  from one_channel_file_parts obtain h chs
    where h: "gecko_file_header one_channel_file
                = Inr (h, example_channel_header 1 @ concat (map (enc_trace (version_of 380)) ?ts))"
      and v: "Version h = version_of 380" "nChannels h = 1" "snum_gecko h = 2"
      and c: "channel_headers (version_of 380) 0 1
                (example_channel_header 1 @ concat (map (enc_trace (version_of 380)) ?ts))
              = Inr (chs, concat (map (enc_trace (version_of 380)) ?ts))"
    by blast
  from gecko_init_traces [of one_channel_file h _ chs ?ts 1] h v c one_channel_traces
  obtain st where init: "gecko_init 1 one_channel_file = Some (finalize h chs 1 (Some st))"
    and cs: "cols st = traces_cols (version_of 380) 1 (empty_cols (nat 2)) ?ts"
    by auto
  obtain g where fin: "finalize h chs 1 (Some st) = Inr g"
    using finalize_Some by blast
  note p = finalize_columns [OF fin]
  show ?thesis
    apply (rule exI [of _ g])
    apply (simp add: init fin p cs traces_cols_columns empty_cols_def rec_fields_def example_values)
    done
qed

text \<open>Without a trace the object has no \<open>data\<close> to transpose, and a negative sample
  count stops the first pass of the loop: the round trip needs a trace and a sample
  count that is not negative.\<close>

lemma gecko_init_no_trace:
  assumes "gecko_file_header bs0 = Inr (h, bs1)"
    and "channel_headers (Version h) 0 (nChannels h) bs1 = Inr (chs, [])"
  shows "gecko_init ch bs0 = Some (Inl (AttributeError ''data''))"
  using assms by (simp add: gecko_init_def trace_loop_end finalize_def)

lemma gecko_init_negative_snum:
  assumes "gecko_file_header bs0 = Inr (h, bs1)"
    and "channel_headers (Version h) 0 (nChannels h) bs1 = Inr (chs, bs2)"
    and "bs2 \<noteq> []" and "snum_gecko h < 0"
  shows "gecko_init ch bs0 = Some (Inl (ValueError ''negative dimensions are not allowed''))"
  using assms
  by (simp add: gecko_init_def trace_loop_unfold trace_pass_def first_pass_def)

subsection \<open>Records that make the decode fail\<close>

lemma trace_pass_failure:
  assumes dr: "data_records (Version h) (nat (snum_gecko h)) 0 ps"
    and len: "length ps < nChannels h"
    and sh: "snd (data_shape (cols st)) = nat (snum_gecko h)"
    and fail: "\<And>st'. snd (data_shape (cols st')) = nat (snum_gecko h) \<Longrightarrow>
                 read_record (Version h) (nat (snum_gecko h)) ch (length ps) st' bs = Inl e"
  shows "trace_pass h ch (Some st) (enc_trace (Version h) ps @ bs) = Inl e"
proof -
  let ?V = "Version h" and ?n = "nat (snum_gecko h)"
  obtain k where k: "nChannels h = length ps + Suc k"
    using len by (metis add_Suc_right less_iff_Suc_add)
  let ?st' = "records_effect ?V ch 0 ps st"
  have "snd (data_shape (cols ?st')) = ?n"
    using sh by (simp add: records_effect_shape)
  then have r: "read_record ?V ?n ch (length ps) ?st' bs = Inl e"
    by (rule fail)
  have "chan_loop ?V ?n ch 0 (length ps + Suc k) st (enc_trace ?V ps @ bs) =
          chan_loop ?V ?n ch (0 + length ps) (Suc k) ?st' bs"
    by (rule chan_loop_records [OF dr sh])
  also have "\<dots> = Inl e"
    using r by simp
  finally show ?thesis
    by (simp add: trace_pass_def first_pass_def k)
qed

lemma trace_loop_failure:
  assumes wf: "\<forall>rs\<in>set ts. wf_trace (Version h) (nat (snum_gecko h)) (nChannels h) rs"
    and dr: "data_records (Version h) (nat (snum_gecko h)) 0 ps"
    and len: "length ps < nChannels h"
    and ne: "bs \<noteq> []"
    and sn: "0 \<le> snum_gecko h"
    and fail: "\<And>st'. snd (data_shape (cols st')) = nat (snum_gecko h) \<Longrightarrow>
                 read_record (Version h) (nat (snum_gecko h)) ch (length ps) st' bs = Inl e"
  shows "trace_loop h ch None
           (concat (map (enc_trace (Version h)) ts) @ enc_trace (Version h) ps @ bs) = Some (Inl e)"
proof -
  let ?V = "Version h" and ?n = "nat (snum_gecko h)"
  let ?init = "\<lparr> cols = empty_cols ?n, newdata = None \<rparr>"
  let ?tail = "enc_trace ?V ps @ bs"
  let ?st = "traces_effect ?V ch ?init ts"
  from len have n0: "0 < nChannels h" by simp
  have sh0: "snd (data_shape (cols ?init)) = ?n"
    by (simp add: empty_cols_def)
  have shs: "snd (data_shape (cols (traces_effect ?V ch s ts))) = snd (data_shape (cols s))" for s
    unfolding traces_effect_def
    by (induction ts arbitrary: s) (simp_all add: records_effect_shape)
  have tail_ne: "?tail \<noteq> []"
    using ne by simp
  then have all_ne: "concat (map (enc_trace ?V) ts) @ ?tail \<noteq> []"
    by simp
  have "trace_loop h ch None (concat (map (enc_trace ?V) ts) @ ?tail) =
          trace_loop h ch (Some ?init) (concat (map (enc_trace ?V) ts) @ ?tail)"
    by (rule trace_loop_first [OF all_ne sn])
  also have "\<dots> = trace_loop h ch (Some ?st) ?tail"
    by (rule trace_loop_traces [OF wf n0 sh0])
  also have "\<dots> = Some (Inl e)"
    using trace_pass_failure [OF dr len _ fail, of ?st] shs [of ?init] sh0
    by (simp add: trace_loop_unfold [OF tail_ne])
  finally show ?thesis .
qed

lemma gecko_init_failure:
  assumes hd: "gecko_file_header bs0 = Inr (h, bs1)"
    and chs: "channel_headers (Version h) 0 (nChannels h) bs1 =
                Inr (chs, concat (map (enc_trace (Version h)) ts) @ enc_trace (Version h) ps @ bs)"
    and wf: "\<forall>rs\<in>set ts. wf_trace (Version h) (nat (snum_gecko h)) (nChannels h) rs"
    and dr: "data_records (Version h) (nat (snum_gecko h)) 0 ps"
    and len: "length ps < nChannels h"
    and ne: "bs \<noteq> []"
    and sn: "0 \<le> snum_gecko h"
    and fail: "\<And>st'. snd (data_shape (cols st')) = nat (snum_gecko h) \<Longrightarrow>
                 read_record (Version h) (nat (snum_gecko h)) ch (length ps) st' bs = Inl e"
  shows "gecko_init ch bs0 = Some (Inl e)"
  using trace_loop_failure [OF wf dr len ne sn fail]
  by (simp add: gecko_init_def hd chs)

lemma rd_marker_raises: "14 \<le> length bs \<Longrightarrow> rd_marker bs = Inl date_plus_error"
  by (simp add: rd_marker_def rd_bind_def rd_skip_def)

lemma read_record_marker:
  assumes wf: "wf_fields V r" and ty: "r_type r = 1" and cn: "uint (r_chan r) = int nn + 1"
    and len: "14 \<le> length (r_payload r @ rest)"
  shows "read_record V nsamp ch nn st (enc_record V r @ rest) = Inl date_plus_error"
proof -
  have head: "rd_bind rd_header_type f (enc_record V r @ rest) =
                f (Some 1) (r_chan r # enc_fields V r @ r_payload r @ rest)" for f
    by (simp add: rd_bind_def rd_header_type_def enc_record_def enc_head_def ty)
  show ?thesis
    unfolding read_record_def head
    using rd_marker_raises [OF len]
    by (simp add: rd_bind_def rd_u8_cons cn rd_trace_fields_enc [OF wf] rd_map_def)
qed

lemma read_record_corrupt:
  assumes "uint c \<noteq> int nn + 1"
  shows "read_record V nsamp ch nn st (t # c # rest) = Inl corrupt_channel"
  using assms
  by (simp add: read_record_def rd_bind_def rd_header_type_def rd_u8_cons)

lemma channel_header_corrupt:
  "uint c \<noteq> int nn + 1 \<Longrightarrow> channel_header V nn (c # rest) = Inl corrupt_channel"
  by (simp add: channel_header_def rd_bind_def rd_u8_cons)

lemma channel_headers_corrupt:
  assumes "channel_headers V nn k bs = Inr (chs, c # rest)" and "uint c \<noteq> int (nn + k) + 1"
  shows "channel_headers V nn (k + Suc j) bs = Inl corrupt_channel"
  using assms
proof (induction k arbitrary: nn bs chs)
  case 0
  then show ?case
    by (simp add: channel_header_corrupt)
next
  case (Suc k)
  from Suc.prems(1) obtain x r1 cs where x: "channel_header V nn bs = Inr (x, r1)"
    and cs: "channel_headers V (Suc nn) k r1 = Inr (cs, c # rest)"
    by (auto simp: rd_map_def split: sum.splits)
  from Suc.prems(2) have "uint c \<noteq> int (Suc nn + k) + 1"
    by simp
  from Suc.IH [OF cs this] x show ?case
    by (simp add: rd_map_def)
qed

lemma example_headers_one:
  "\<exists>h chs. gecko_file_header (example_file_header 1 0 2 @ example_channel_header 1 @ bs)
            = Inr (h, example_channel_header 1 @ bs)
     \<and> Version h = version_of 380 \<and> nChannels h = 1 \<and> snum_gecko h = 2
     \<and> channel_headers (version_of 380) 0 1 (example_channel_header 1 @ bs) = Inr (chs, bs)"
proof -
  from example_file_header_parses [of 1 0 2 "example_channel_header 1 @ bs"]
  obtain h where h: "gecko_file_header (example_file_header 1 0 2 @ example_channel_header 1 @ bs)
                       = Inr (h, example_channel_header 1 @ bs)"
    and v: "Version h = version_of 380" "nChannels h = 1" "snum_gecko h = 2"
    by auto
  have c: "channel_headers (version_of 380) 0 1 (example_channel_header 1 @ bs)
             = Inr ([(500, 0, 0)], bs)"
    using example_channel_header_parses [of "version_of 380" 1 0 bs]
    by (simp add: version_380 rd_map_def)
  from h v c show ?thesis
    by auto
qed

lemma example_headers_two:
  "\<exists>h chs. gecko_file_header
              (example_file_header 2 0 2 @ example_channel_header 1 @ example_channel_header 2 @ bs)
            = Inr (h, example_channel_header 1 @ example_channel_header 2 @ bs)
     \<and> Version h = version_of 380 \<and> nChannels h = 2 \<and> snum_gecko h = 2
     \<and> channel_headers (version_of 380) 0 2
          (example_channel_header 1 @ example_channel_header 2 @ bs) = Inr (chs, bs)"
proof -
  from example_file_header_parses
         [of 2 0 2 "example_channel_header 1 @ example_channel_header 2 @ bs"]
  obtain h where h: "gecko_file_header
        (example_file_header 2 0 2 @ example_channel_header 1 @ example_channel_header 2 @ bs)
                       = Inr (h, example_channel_header 1 @ example_channel_header 2 @ bs)"
    and v: "Version h = version_of 380" "nChannels h = 2" "snum_gecko h = 2"
    by auto
  have c1: "channel_header (version_of 380) 0
              (example_channel_header 1 @ example_channel_header 2 @ bs)
            = Inr ((500, 0, 0), example_channel_header 2 @ bs)"
    using example_channel_header_parses [of "version_of 380" 1 0 "example_channel_header 2 @ bs"]
    by (simp add: version_380)
  have c2: "channel_header (version_of 380) (Suc 0) (example_channel_header 2 @ bs)
            = Inr ((500, 0, 0), bs)"
    using example_channel_header_parses [of "version_of 380" 2 "Suc 0" bs]
    by (simp add: version_380)
  have c: "channel_headers (version_of 380) 0 2
             (example_channel_header 1 @ example_channel_header 2 @ bs)
           = Inr ([(500, 0, 0), (500, 0, 0)], bs)"
    by (simp add: numeral_2_eq_2 c1 c2 rd_map_def)
  from h v c show ?thesis
    by auto
qed

text \<open>
  C9 fails on the code. On a file of one channel with a marker record, complete with
  its 38 bytes, between two data traces, the decode raises TypeError in the marker
  branch: the day number read there is added to the \<open>date\<close> object itself, where the
  two other day numbers of the file are added to its ordinal. No trace after a marker
  is ever decoded.
\<close>

theorem marker_file_raises:
  "gecko_init 1 marker_file = Some (Inl date_plus_error)"
proof -
  let ?V = "version_of 380"
  let ?r1 = "example_record 0 1 1 5 (samples_bytes [10, - 20])"
  let ?m = "example_record 1 1 1 5 (replicate 38 0)"
  let ?rest = "enc_trace ?V [example_record 0 1 2 5 (samples_bytes [30, 40])]"
  let ?bs = "enc_record ?V ?m @ ?rest"
  let ?stream = "concat (map (enc_trace ?V) [[?r1]]) @ enc_trace ?V [] @ ?bs"
  have f: "marker_file = example_file_header 1 0 2 @ example_channel_header 1 @ ?stream"
    by (simp add: marker_file_def enc_trace_def)
  from example_headers_one [of ?stream] obtain h chs
    where h: "gecko_file_header marker_file = Inr (h, example_channel_header 1 @ ?stream)"
      and v: "Version h = ?V" "nChannels h = 1" "snum_gecko h = 2"
      and c: "channel_headers ?V 0 1 (example_channel_header 1 @ ?stream) = Inr (chs, ?stream)"
    unfolding f by blast
  have wf: "\<forall>rs\<in>set [[?r1]]. wf_trace ?V 2 1 rs"
    using example_data_record [of 1 0 _ 2]
    by (simp add: wf_trace_def length_samples_bytes)
  have ne: "?bs \<noteq> []"
    by (simp add: enc_record_def enc_head_def)
  have fail: "read_record ?V 2 1 0 st' ?bs = Inl date_plus_error" for st'
    by (rule read_record_marker) (simp_all add: example_record_wf example_record_simps)
  from gecko_init_failure [where ?bs0.0 = marker_file and h = h and chs = chs and ts = "[[?r1]]"
         and ps = "[]" and bs = ?bs and e = date_plus_error and ch = 1]
  show ?thesis
    using h v c wf ne fail by simp
qed

text \<open>
  C8. Let the file header be read. If the first \<open>k\<close> channel headers are read and the
  channel number of the next one is not \<open>k + 1\<close>, or if all channel headers are read
  and are followed by whole traces and the first records of a trace, all data records,
  and the channel number of the next record is not its position in the trace, then the
  decode raises TypeError (`Corrupt Channel header') and builds no object: no column
  read so far is returned.
\<close>

theorem corrupt_channel_index:
  assumes hd: "gecko_file_header bs0 = Inr (h, bs1)"
  shows "(channel_headers (Version h) 0 k bs1 = Inr (chs, c # rest)
          \<and> k < nChannels h \<and> uint c \<noteq> int k + 1
          \<longrightarrow> gecko_init ch bs0 = Some (Inl corrupt_channel))
       \<and> (channel_headers (Version h) 0 (nChannels h) bs1 =
            Inr (chs, concat (map (enc_trace (Version h)) ts) @ enc_trace (Version h) ps
                        @ t # c # rest)
          \<and> (\<forall>rs\<in>set ts. wf_trace (Version h) (nat (snum_gecko h)) (nChannels h) rs)
          \<and> data_records (Version h) (nat (snum_gecko h)) 0 ps
          \<and> length ps < nChannels h \<and> 0 \<le> snum_gecko h
          \<and> uint c \<noteq> int (length ps) + 1
          \<longrightarrow> gecko_init ch bs0 = Some (Inl corrupt_channel))"
proof (intro conjI impI)
  assume a: "channel_headers (Version h) 0 k bs1 = Inr (chs, c # rest)
             \<and> k < nChannels h \<and> uint c \<noteq> int k + 1"
  then obtain j where j: "nChannels h = k + Suc j"
    by (metis add_Suc_right less_iff_Suc_add)
  from a have "channel_headers (Version h) 0 (k + Suc j) bs1 = Inl corrupt_channel"
    by (intro channel_headers_corrupt [of _ _ _ _ chs c rest]) simp_all
  then show "gecko_init ch bs0 = Some (Inl corrupt_channel)"
    by (simp add: gecko_init_def hd j)
next
  assume b: "channel_headers (Version h) 0 (nChannels h) bs1 =
            Inr (chs, concat (map (enc_trace (Version h)) ts) @ enc_trace (Version h) ps
                        @ t # c # rest)
          \<and> (\<forall>rs\<in>set ts. wf_trace (Version h) (nat (snum_gecko h)) (nChannels h) rs)
          \<and> data_records (Version h) (nat (snum_gecko h)) 0 ps
          \<and> length ps < nChannels h \<and> 0 \<le> snum_gecko h
          \<and> uint c \<noteq> int (length ps) + 1"
  then have fail: "read_record (Version h) (nat (snum_gecko h)) ch (length ps) st' (t # c # rest)
                     = Inl corrupt_channel" for st'
    by (intro read_record_corrupt) simp
  from gecko_init_failure [where ?bs0.0 = bs0 and h = h and ?bs1.0 = bs1 and chs = chs
         and ts = ts and ps = ps and bs = "t # c # rest" and e = corrupt_channel and ch = ch]
  show "gecko_init ch bs0 = Some (Inl corrupt_channel)"
    using hd b fail by simp
qed

theorem corrupt_channel_index_witness:
  "gecko_init 1 corrupt_header_file = Some (Inl corrupt_channel)
   \<and> gecko_init 1 corrupt_record_file = Some (Inl corrupt_channel)"
proof
  let ?V = "version_of 380"
  let ?tr = "enc_trace ?V [example_record 0 1 1 5 (samples_bytes [10, - 20]),
                           example_record 0 2 1 5 (samples_bytes [11, - 21])]"
  let ?rest = "le_bytes 2 500 @ le_bytes 1 0 @ le_bytes 1 0 @ ?tr"
  let ?bs1 = "example_channel_header 1 @ (1 :: byte) # ?rest"
  have f: "corrupt_header_file = example_file_header 2 0 2 @ ?bs1"
    by (simp add: corrupt_header_file_def example_channel_header_def)
  from example_file_header_parses [of 2 0 2 ?bs1]
  obtain h where h: "gecko_file_header corrupt_header_file = Inr (h, ?bs1)"
    and v: "Version h = ?V" "nChannels h = 2" "snum_gecko h = 2"
    unfolding f by auto
  have c: "channel_headers ?V 0 1 ?bs1 = Inr ([(500, 0, 0)], (1 :: byte) # ?rest)"
    using example_channel_header_parses [of ?V 1 0 "(1 :: byte) # ?rest"]
    by (simp add: version_380 rd_map_def)
  from corrupt_channel_index [OF h, where k = 1 and chs = "[(500, 0, 0)]" and c = 1
         and rest = ?rest and ch = 1]
  show "gecko_init 1 corrupt_header_file = Some (Inl corrupt_channel)"
    using v c by simp
next
  let ?V = "version_of 380"
  let ?r11 = "example_record 0 1 1 5 (samples_bytes [10, - 20])"
  let ?r12 = "example_record 0 2 1 5 (samples_bytes [11, - 21])"
  let ?r21 = "example_record 0 1 2 5 (samples_bytes [30, 40])"
  let ?r23 = "example_record 0 3 2 5 (samples_bytes [31, 41])"
  let ?rest = "enc_fields ?V ?r23 @ r_payload ?r23"
  let ?stream = "concat (map (enc_trace ?V) [[?r11, ?r12]]) @ enc_trace ?V [?r21]
                   @ (0 :: byte) # (3 :: byte) # ?rest"
  have f: "corrupt_record_file =
             example_file_header 2 0 2 @ example_channel_header 1 @ example_channel_header 2 @ ?stream"
    by (simp add: corrupt_record_file_def enc_trace_def enc_record_def enc_head_def
          example_record_simps)
  from example_headers_two [of ?stream] obtain h chs
    where h: "gecko_file_header corrupt_record_file
                = Inr (h, example_channel_header 1 @ example_channel_header 2 @ ?stream)"
      and v: "Version h = ?V" "nChannels h = 2" "snum_gecko h = 2"
      and c: "channel_headers ?V 0 2 (example_channel_header 1 @ example_channel_header 2 @ ?stream)
                = Inr (chs, ?stream)"
    unfolding f by blast
  have wf: "\<forall>rs\<in>set [[?r11, ?r12]]. wf_trace ?V 2 2 rs"
    using example_data_record [of 1 0 _ 2] example_data_record [of 2 1 _ 2]
    by (simp add: wf_trace_def length_samples_bytes)
  have dr: "data_records ?V 2 0 [?r21]"
    using example_data_record [of 1 0 _ 2]
    by (simp add: length_samples_bytes)
  from corrupt_channel_index [OF h, where chs = chs and c = 3 and rest = ?rest and ch = 1
         and ts = "[[?r11, ?r12]]" and ps = "[?r21]" and t = 0]
  show "gecko_init 1 corrupt_record_file = Some (Inl corrupt_channel)"
    using v c wf dr by simp
qed

subsection \<open>Comment records\<close>

lemma read_record_comment:
  assumes "comment_record V nn r"
  shows "read_record V nsamp ch nn st (enc_head V r @ rest) =
     (let st2 = (if nn = 0 then st\<lparr>cols := append_scalars (rec_fields V r) (cols st)\<rparr> else st)
      in if int nn + 1 = ch
         then (case append_data st2 of Inl e \<Rightarrow> Inl e | Inr st3 \<Rightarrow> Inr ((Continue, st3), rest))
         else Inr ((Continue, st2), rest))"
proof -
  from assms have wf: "wf_fields V r" and ty: "r_type r = 2" and cn: "uint (r_chan r) = int nn + 1"
    by (simp_all add: comment_record_def)
  have head: "rd_bind rd_header_type f (enc_head V r @ rest) =
                f (Some 2) (r_chan r # enc_fields V r @ rest)" for f
    by (simp add: rd_bind_def rd_header_type_def enc_head_def ty)
  show ?thesis
    unfolding read_record_def head
    by (simp add: rd_bind_def rd_u8_cons cn rd_trace_fields_enc [OF wf] rd_return_def Let_def)
qed

lemma read_record_comment_unbound:
  assumes "comment_record V nn r" and "int nn + 1 = ch" and "newdata st = None"
  shows "read_record V nsamp ch nn st (enc_head V r @ rest) = Inl (UnboundLocalError ''newdata'')"
  using assms(2,3) by (simp add: read_record_comment [OF assms(1)] append_data_def Let_def)

lemma read_record_comment_bound:
  assumes "comment_record V nn r" and "int nn + 1 = ch" and "newdata st = Some d"
    and "length d = snd (data_shape (cols st))"
  shows "\<exists>st'. read_record V nsamp ch nn st (enc_head V r @ rest) = Inr ((Continue, st'), rest)
           \<and> data (cols st') = data (cols st) @ [d] \<and> newdata st' = Some d
           \<and> data_shape (cols st') = (Suc (fst (data_shape (cols st))), snd (data_shape (cols st)))"
  using assms(2-4)
  by (simp add: read_record_comment [OF assms(1)] append_data_def Let_def append_scalars_def)

lemma read_record_comment_other:
  assumes "comment_record V nn r" and "int nn + 1 \<noteq> ch"
  shows "\<exists>st'. read_record V nsamp ch nn st (enc_head V r @ rest) = Inr ((Continue, st'), rest)
           \<and> newdata st' = newdata st"
  using assms(2) by (simp add: read_record_comment [OF assms(1)] Let_def)

lemma chan_loop_comments:
  assumes "comment_records V nn cs" and "int nn + int (length cs) < ch"
  shows "\<exists>st'. chan_loop V nsamp ch nn (length cs + k) st (concat (map (enc_head V) cs) @ rest) =
                 chan_loop V nsamp ch (nn + length cs) k st' rest
           \<and> newdata st' = newdata st"
  using assms
proof (induction cs arbitrary: nn st)
  case Nil
  show ?case by (intro exI [of _ st]) simp
next
  case (Cons r cs)
  from Cons.prems have r: "comment_record V nn r" and cs: "comment_records V (Suc nn) cs"
    and lt: "int (Suc nn) + int (length cs) < ch" and other: "int nn + 1 \<noteq> ch"
    by simp_all
  let ?tail = "concat (map (enc_head V) cs) @ rest"
  from read_record_comment_other [OF r other, of nsamp st ?tail] obtain st1
    where r1: "read_record V nsamp ch nn st (enc_head V r @ ?tail) = Inr ((Continue, st1), ?tail)"
      and n1: "newdata st1 = newdata st"
    by blast
  from Cons.IH [OF cs lt, of st1] obtain st'
    where l: "chan_loop V nsamp ch (Suc nn) (length cs + k) st1 ?tail =
                chan_loop V nsamp ch (Suc nn + length cs) k st' rest"
      and n': "newdata st' = newdata st1"
    by blast
  show ?case
    apply (rule exI [of _ st'])
    using r1 l n1 n' by simp
qed

lemma gecko_init_comment_first:
  assumes hd: "gecko_file_header bs0 = Inr (h, bs1)"
    and chs: "channel_headers (Version h) 0 (nChannels h) bs1 =
                Inr (chs, concat (map (enc_head (Version h)) cs) @ enc_head (Version h) r @ rest)"
    and cs: "comment_records (Version h) 0 cs"
    and r: "comment_record (Version h) (length cs) r"
    and sel: "ch = int (length cs) + 1"
    and len: "length cs < nChannels h"
    and sn: "0 \<le> snum_gecko h"
  shows "gecko_init ch bs0 = Some (Inl (UnboundLocalError ''newdata''))"
proof -
  let ?V = "Version h" and ?n = "nat (snum_gecko h)"
  let ?init = "\<lparr> cols = empty_cols ?n, newdata = None \<rparr>"
  let ?tail = "enc_head ?V r @ rest"
  let ?bs = "concat (map (enc_head ?V) cs) @ ?tail"
  obtain k where k: "nChannels h = length cs + Suc k"
    using len by (metis add_Suc_right less_iff_Suc_add)
  have ne: "?bs \<noteq> []"
    by (simp add: enc_head_def)
  from sel have lt: "int 0 + int (length cs) < ch"
    by simp
  from chan_loop_comments [OF cs lt, of ?n "Suc k" ?init ?tail] obtain st'
    where l: "chan_loop ?V ?n ch 0 (length cs + Suc k) ?init ?bs =
                chan_loop ?V ?n ch (0 + length cs) (Suc k) st' ?tail"
      and n: "newdata st' = None"
    by auto
  have "read_record ?V ?n ch (length cs) st' ?tail = Inl (UnboundLocalError ''newdata'')"
    using sel by (intro read_record_comment_unbound [OF r _ n]) simp
  with l have "chan_loop ?V ?n ch 0 (nChannels h) ?init ?bs = Inl (UnboundLocalError ''newdata'')"
    by (simp add: k)
  then have "trace_pass h ch None ?bs = Inl (UnboundLocalError ''newdata'')"
    using sn by (simp add: trace_pass_def first_pass_def)
  then have "trace_loop h ch None ?bs = Some (Inl (UnboundLocalError ''newdata''))"
    by (simp add: trace_loop_unfold [OF ne])
  then show ?thesis
    by (simp add: gecko_init_def hd chs)
qed

lemma example_comment_record:
  assumes "k = int nn + 1" "k < 256"
  shows "comment_record (version_of 380) nn (example_record 2 k tn lev p)"
proof -
  have "uint (word_of_int k :: byte) = k"
    using assms(1,2) by (intro uint_byte) simp_all
  with assms(1) have "uint (r_chan (example_record 2 k tn lev p)) = int nn + 1"
    by (simp only: example_record_simps)
  then show ?thesis
    by (simp add: comment_record_def example_record_wf example_record_simps)
qed

text \<open>
  C10, as the code has it. No sample payload is read for a comment record (type 2): the
  cursor stays right after its trace header. On the selected output channel, with
  \<open>newdata\<close> still unbound the append raises UnboundLocalError; with \<open>newdata\<close> bound
  (a data record binds it to its samples, on any channel, and it stays bound) and of the
  row length, that payload is appended to \<open>data\<close> once more as the column of the comment
  record. A file whose first trace starts with comment records on every channel up to
  and including the selected one makes the whole decode raise UnboundLocalError.
\<close>

theorem comment_record_no_branch:
  assumes r: "comment_record V nn r" and sel: "int nn + 1 = ch"
  shows "(newdata st = None \<longrightarrow>
            read_record V nsamp ch nn st (enc_head V r @ rest) = Inl (UnboundLocalError ''newdata''))
       \<and> (newdata st = Some d \<and> length d = snd (data_shape (cols st)) \<longrightarrow>
            (\<exists>st'. read_record V nsamp ch nn st (enc_head V r @ rest) = Inr ((Continue, st'), rest)
                  \<and> data (cols st') = data (cols st) @ [d] \<and> newdata st' = Some d))
       \<and> (data_record V nsamp nn' r' \<and> snd (data_shape (cols st)) = nsamp \<longrightarrow>
            (\<exists>st'. read_record V nsamp ch nn' st (enc_record V r' @ rest) = Inr ((Continue, st'), rest)
                  \<and> newdata st' = Some (rec_samples r')))
       \<and> (gecko_file_header bs0 = Inr (h, bs1) \<and> V = Version h
          \<and> channel_headers V 0 (nChannels h) bs1 =
                Inr (chs, concat (map (enc_head V) cs) @ enc_head V r @ rest)
          \<and> comment_records V 0 cs \<and> length cs = nn \<and> nn < nChannels h \<and> 0 \<le> snum_gecko h
          \<longrightarrow> gecko_init ch bs0 = Some (Inl (UnboundLocalError ''newdata'')))"
proof (intro conjI impI)
  assume "newdata st = None"
  then show "read_record V nsamp ch nn st (enc_head V r @ rest) = Inl (UnboundLocalError ''newdata'')"
    by (rule read_record_comment_unbound [OF r sel])
next
  assume "newdata st = Some d \<and> length d = snd (data_shape (cols st))"
  then show "\<exists>st'. read_record V nsamp ch nn st (enc_head V r @ rest) = Inr ((Continue, st'), rest)
                  \<and> data (cols st') = data (cols st) @ [d] \<and> newdata st' = Some d"
    using read_record_comment_bound [OF r sel, of st d nsamp rest] by auto
next
  assume "data_record V nsamp nn' r' \<and> snd (data_shape (cols st)) = nsamp"
  then show "\<exists>st'. read_record V nsamp ch nn' st (enc_record V r' @ rest) = Inr ((Continue, st'), rest)
                  \<and> newdata st' = Some (rec_samples r')"
    using read_record_data [of V nsamp nn' r' st ch rest] by simp
next
  assume a: "gecko_file_header bs0 = Inr (h, bs1) \<and> V = Version h
          \<and> channel_headers V 0 (nChannels h) bs1 =
                Inr (chs, concat (map (enc_head V) cs) @ enc_head V r @ rest)
          \<and> comment_records V 0 cs \<and> length cs = nn \<and> nn < nChannels h \<and> 0 \<le> snum_gecko h"
  from gecko_init_comment_first [where ?bs0.0 = bs0 and h = h and ?bs1.0 = bs1 and chs = chs
         and cs = cs and r = r and rest = rest and ch = ch]
  show "gecko_init ch bs0 = Some (Inl (UnboundLocalError ''newdata''))"
    using a r sel by auto
qed

theorem comment_record_no_branch_witness:
  "gecko_init 1 comment_first_file = Some (Inl (UnboundLocalError ''newdata''))
   \<and> (\<exists>st'. read_record (version_of 380) 2 1 0 \<lparr> cols = empty_cols 2, newdata = Some [10, - 20] \<rparr>
               (enc_head (version_of 380) (example_record 2 1 1 5 []) @ [])
             = Inr ((Continue, st'), []) \<and> data (cols st') = [[10, - 20]])"
proof -
  let ?V = "version_of 380"
  let ?c = "example_record 2 1 1 5 []"
  let ?stream = "concat (map (enc_head ?V) []) @ enc_head ?V ?c @ []"
  have f: "comment_first_file = example_file_header 1 0 2 @ example_channel_header 1 @ ?stream"
    by (simp add: comment_first_file_def enc_trace_def enc_record_def example_record_simps)
  from example_headers_one [of ?stream] obtain h chs
    where h: "gecko_file_header comment_first_file = Inr (h, example_channel_header 1 @ ?stream)"
      and v: "Version h = ?V" "nChannels h = 1" "snum_gecko h = 2"
      and c: "channel_headers ?V 0 1 (example_channel_header 1 @ ?stream) = Inr (chs, ?stream)"
    unfolding f by blast
  have cr: "comment_record ?V 0 ?c"
    by (rule example_comment_record) simp_all
  from comment_record_no_branch [OF cr, where ch = 1 and ?bs0.0 = comment_first_file and h = h
         and chs = chs and cs = "[]" and rest = "[]", THEN conjunct2, THEN conjunct2, THEN conjunct2]
  have 1: "gecko_init 1 comment_first_file = Some (Inl (UnboundLocalError ''newdata''))"
    using h v c by simp
  from comment_record_no_branch [OF cr, where ch = 1
         and st = "\<lparr> cols = empty_cols 2, newdata = Some [10, - 20] \<rparr>" and d = "[10, - 20]"
         and nsamp = 2 and rest = "[]", THEN conjunct2, THEN conjunct1]
  have 2: "\<exists>st'. read_record ?V 2 1 0 \<lparr> cols = empty_cols 2, newdata = Some [10, - 20] \<rparr>
               (enc_head ?V ?c @ []) = Inr ((Continue, st'), []) \<and> data (cols st') = [[10, - 20]]"
    by (auto simp: empty_cols_def)
  from 1 2 show ?thesis ..
qed

text \<open>
  C10 as stated fails on a file of two channels whose only trace has a data record on
  channel 1 and a comment record on channel 2: decoded for channel 2, whose first
  record is the comment, the decode raises nothing and returns the samples of channel 1
  as the one column of \<open>data\<close>.
\<close>

theorem comment_file_decodes:
  "\<exists>g. gecko_init 2 comment_file = Some (Inr g) \<and> tnum g = 1
       \<and> data (final_cols g) = [[10], [- 20]]"
proof -
  let ?V = "version_of 380"
  let ?r1 = "example_record 0 1 1 5 (samples_bytes [10, - 20])"
  let ?c = "example_record 2 2 1 5 []"
  let ?init = "\<lparr> cols = empty_cols (nat 2), newdata = None \<rparr>"
  let ?stream = "enc_trace ?V [?r1] @ enc_head ?V ?c @ []"
  have f: "comment_file =
             example_file_header 2 0 2 @ example_channel_header 1 @ example_channel_header 2 @ ?stream"
    by (simp add: comment_file_def enc_trace_def enc_record_def example_record_simps)
  from example_headers_two [of ?stream] obtain h chs
    where h: "gecko_file_header comment_file
                = Inr (h, example_channel_header 1 @ example_channel_header 2 @ ?stream)"
      and v: "Version h = ?V" "nChannels h = 2" "snum_gecko h = 2"
      and c: "channel_headers ?V 0 2 (example_channel_header 1 @ example_channel_header 2 @ ?stream)
                = Inr (chs, ?stream)"
    unfolding f by blast
  have dr: "data_records ?V 2 0 [?r1]"
    using example_data_record [of 1 0 _ 2]
    by (simp add: length_samples_bytes)
  have cr: "comment_record ?V (Suc 0) ?c"
    by (rule example_comment_record) simp_all
  let ?st1 = "records_effect ?V 2 0 [?r1] ?init"
  have st1: "newdata ?st1 = Some [10, - 20]" "data (cols ?st1) = []"
    "data_shape (cols ?st1) = (0, 2)"
    by (simp_all add: rec_cols_def empty_cols_def append_scalars_def example_values)
  have "chan_loop ?V 2 2 0 (length [?r1] + Suc 0) ?init (enc_trace ?V [?r1] @ enc_head ?V ?c @ []) =
          chan_loop ?V 2 2 (0 + length [?r1]) (Suc 0) ?st1 (enc_head ?V ?c @ [])"
    by (rule chan_loop_records [OF dr]) (simp add: empty_cols_def)
  moreover from read_record_comment_bound [OF cr _ st1(1), of 2 2 "[]"] st1 obtain st2
    where "read_record ?V 2 2 (Suc 0) ?st1 (enc_head ?V ?c @ []) = Inr ((Continue, st2), [])"
      and d2: "data (cols st2) = [[10, - 20]]" "data_shape (cols st2) = (Suc 0, 2)"
    by auto
  ultimately have "chan_loop ?V 2 2 0 2 ?init ?stream = Inr (st2, [])"
    by (simp add: numeral_2_eq_2)
  then have "trace_pass h 2 None ?stream = Inr (st2, [])"
    by (simp add: trace_pass_def first_pass_def v)
  moreover have "?stream \<noteq> []"
    by (simp add: enc_head_def)
  ultimately have "trace_loop h 2 None ?stream = Some (Inr (Some st2))"
    by (simp add: trace_loop_unfold trace_loop_end)
  then have init: "gecko_init 2 comment_file = Some (finalize h chs 2 (Some st2))"
    using h v c by (simp add: gecko_init_def)
  obtain g where fin: "finalize h chs 2 (Some st2) = Inr g"
    using finalize_Some by blast
  have t: "transpose_rows 2 [[10, - 20]] = [[10], [- 20]]"
    by code_simp
  note p = finalize_columns [OF fin]
  show ?thesis
    apply (rule exI [of _ g])
    apply (simp add: init fin p d2 t)
    done
qed

end
